theory Spec2Isabelle
  imports Complex_Main
begin

section \<open>Python values and exceptions\<close>

text \<open>
  The agents pass around what \<^verbatim>\<open>json.loads\<close> and \<^verbatim>\<open>ast.literal_eval\<close> return: untyped
  Python values. \<open>PNone\<close> is Python's \<^verbatim>\<open>None\<close> (also JSON \<^verbatim>\<open>null\<close>). A dict is an
  association list in iteration order; a set is the list of its elements in iteration
  order. A float is carried as the rational it denotes: only its being zero is ever
  inspected. Characters are code points below 256. Bytes and complex literals are outside
  the value range of this development.
\<close>

datatype pyval =
    PNone
  | PBool bool
  | PInt int
  | PFloat rat
  | PStr string
  | PList "pyval list"
  | PTuple "pyval list"
  | PSet "pyval list"
  | PDict "(pyval \<times> pyval) list"

text \<open>
  The exceptions that the modelled code can raise. \<open>ServiceError\<close> is whatever an external
  call (HTTP, Bedrock, Snowflake, the memory service) raises, with its message.
\<close>

datatype exn =
    TypeError
  | AttributeError
  | KeyError
  | IndexError
  | ServiceError string

subsection \<open>Strings\<close>

definition startswith :: "string \<Rightarrow> string \<Rightarrow> bool" where
  \<comment> \<open>\<^verbatim>\<open>s.startswith(p)\<close>\<close>
  "startswith s p = (take (length p) s = p)"

definition whitespace :: "char list" where
  \<comment> \<open>the code points below 256 on which \<^verbatim>\<open>str.isspace\<close> holds\<close>
  "whitespace =
     [CHR 0x09, CHR 0x0A, CHR 0x0B, CHR 0x0C, CHR 0x0D, CHR 0x1C, CHR 0x1D, CHR 0x1E, CHR 0x1F,
      CHR 0x20, CHR 0x85, CHR 0xA0]"

definition is_space :: "char \<Rightarrow> bool" where
  "is_space c = (c \<in> set whitespace)"

definition strip :: "string \<Rightarrow> string" where
  \<comment> \<open>\<^verbatim>\<open>s.strip()\<close>\<close>
  "strip s = rev (dropWhile is_space (rev (dropWhile is_space s)))"

fun is_substring :: "string \<Rightarrow> string \<Rightarrow> bool" where
  \<comment> \<open>\<^verbatim>\<open>k in s\<close> for two strings\<close>
  "is_substring k [] = (k = [])"
| "is_substring k (c # cs) = (startswith (c # cs) k \<or> is_substring k cs)"

subsection \<open>Operations on values\<close>

text \<open>
  Each operation is the Python operator on every kind of value, with the exception Python
  raises where the value does not support it. A string is equal to no value but the
  same string, so membership of a string key compares with \<open>PStr\<close> only.
\<close>

fun py_in :: "string \<Rightarrow> pyval \<Rightarrow> exn + bool" where
  \<comment> \<open>\<^verbatim>\<open>k in v\<close>, \<open>k\<close> a string\<close>
  "py_in k (PDict kvs) = Inr (PStr k \<in> set (map fst kvs))"
| "py_in k (PList xs) = Inr (PStr k \<in> set xs)"
| "py_in k (PTuple xs) = Inr (PStr k \<in> set xs)"
| "py_in k (PSet xs) = Inr (PStr k \<in> set xs)"
| "py_in k (PStr s) = Inr (is_substring k s)"
| "py_in k PNone = Inl TypeError"
| "py_in k (PBool b) = Inl TypeError"
| "py_in k (PInt i) = Inl TypeError"
| "py_in k (PFloat r) = Inl TypeError"

fun py_get :: "pyval \<Rightarrow> string \<Rightarrow> pyval \<Rightarrow> exn + pyval" where
  \<comment> \<open>\<^verbatim>\<open>v.get(k, d)\<close>: only a dict has \<^verbatim>\<open>get\<close>\<close>
  "py_get (PDict kvs) k d = Inr (case map_of kvs (PStr k) of Some x \<Rightarrow> x | None \<Rightarrow> d)"
| "py_get PNone k d = Inl AttributeError"
| "py_get (PBool b) k d = Inl AttributeError"
| "py_get (PInt i) k d = Inl AttributeError"
| "py_get (PFloat r) k d = Inl AttributeError"
| "py_get (PStr s) k d = Inl AttributeError"
| "py_get (PList xs) k d = Inl AttributeError"
| "py_get (PTuple xs) k d = Inl AttributeError"
| "py_get (PSet xs) k d = Inl AttributeError"

fun py_subscript :: "pyval \<Rightarrow> string \<Rightarrow> exn + pyval" where
  \<comment> \<open>\<^verbatim>\<open>v[k]\<close>, \<open>k\<close> a string: a sequence wants an integer index, the rest is not subscriptable\<close>
  "py_subscript (PDict kvs) k = (case map_of kvs (PStr k) of Some x \<Rightarrow> Inr x | None \<Rightarrow> Inl KeyError)"
| "py_subscript PNone k = Inl TypeError"
| "py_subscript (PBool b) k = Inl TypeError"
| "py_subscript (PInt i) k = Inl TypeError"
| "py_subscript (PFloat r) k = Inl TypeError"
| "py_subscript (PStr s) k = Inl TypeError"
| "py_subscript (PList xs) k = Inl TypeError"
| "py_subscript (PTuple xs) k = Inl TypeError"
| "py_subscript (PSet xs) k = Inl TypeError"

definition is_zero_key :: "pyval \<Rightarrow> bool" where
  \<comment> \<open>the dict keys equal to the integer 0: \<^verbatim>\<open>0 == False == 0.0\<close>\<close>
  "is_zero_key k = (k = PInt 0 \<or> k = PBool False \<or> k = PFloat 0)"

fun py_first :: "pyval \<Rightarrow> exn + pyval" where
  \<comment> \<open>\<^verbatim>\<open>v[0]\<close>\<close>
  "py_first (PList xs) = (case xs of [] \<Rightarrow> Inl IndexError | x # _ \<Rightarrow> Inr x)"
| "py_first (PTuple xs) = (case xs of [] \<Rightarrow> Inl IndexError | x # _ \<Rightarrow> Inr x)"
| "py_first (PStr s) = (case s of [] \<Rightarrow> Inl IndexError | c # _ \<Rightarrow> Inr (PStr [c]))"
| "py_first (PDict kvs) =
     (case filter (\<lambda>kv. is_zero_key (fst kv)) kvs of [] \<Rightarrow> Inl KeyError | kv # _ \<Rightarrow> Inr (snd kv))"
| "py_first PNone = Inl TypeError"
| "py_first (PBool b) = Inl TypeError"
| "py_first (PInt i) = Inl TypeError"
| "py_first (PFloat r) = Inl TypeError"
| "py_first (PSet xs) = Inl TypeError"

fun py_iter :: "pyval \<Rightarrow> exn + pyval list" where
  \<comment> \<open>the items \<^verbatim>\<open>for x in v\<close> visits: a dict gives its keys, a string its characters\<close>
  "py_iter (PList xs) = Inr xs"
| "py_iter (PTuple xs) = Inr xs"
| "py_iter (PSet xs) = Inr xs"
| "py_iter (PDict kvs) = Inr (map fst kvs)"
| "py_iter (PStr s) = Inr (map (\<lambda>c. PStr [c]) s)"
| "py_iter PNone = Inl TypeError"
| "py_iter (PBool b) = Inl TypeError"
| "py_iter (PInt i) = Inl TypeError"
| "py_iter (PFloat r) = Inl TypeError"

fun py_truth :: "pyval \<Rightarrow> bool" where
  \<comment> \<open>\<^verbatim>\<open>bool(v)\<close>\<close>
  "py_truth PNone = False"
| "py_truth (PBool b) = b"
| "py_truth (PInt i) = (i \<noteq> 0)"
| "py_truth (PFloat r) = (r \<noteq> 0)"
| "py_truth (PStr s) = (s \<noteq> [])"
| "py_truth (PList xs) = (xs \<noteq> [])"
| "py_truth (PTuple xs) = (xs \<noteq> [])"
| "py_truth (PSet xs) = (xs \<noteq> [])"
| "py_truth (PDict kvs) = (kvs \<noteq> [])"

fun py_concat :: "string \<Rightarrow> pyval \<Rightarrow> exn + string" where
  \<comment> \<open>\<^verbatim>\<open>s + v\<close> for a string \<open>s\<close>\<close>
  "py_concat s (PStr t) = Inr (s @ t)"
| "py_concat s PNone = Inl TypeError"
| "py_concat s (PBool b) = Inl TypeError"
| "py_concat s (PInt i) = Inl TypeError"
| "py_concat s (PFloat r) = Inl TypeError"
| "py_concat s (PList xs) = Inl TypeError"
| "py_concat s (PTuple xs) = Inl TypeError"
| "py_concat s (PSet xs) = Inl TypeError"
| "py_concat s (PDict kvs) = Inl TypeError"

fun py_strip :: "pyval \<Rightarrow> exn + string" where
  \<comment> \<open>\<^verbatim>\<open>v.strip()\<close>: only a string has it\<close>
  "py_strip (PStr s) = Inr (strip s)"
| "py_strip PNone = Inl AttributeError"
| "py_strip (PBool b) = Inl AttributeError"
| "py_strip (PInt i) = Inl AttributeError"
| "py_strip (PFloat r) = Inl AttributeError"
| "py_strip (PList xs) = Inl AttributeError"
| "py_strip (PTuple xs) = Inl AttributeError"
| "py_strip (PSet xs) = Inl AttributeError"
| "py_strip (PDict kvs) = Inl AttributeError"

subsection \<open>Sequencing with exceptions\<close>

definition and_then :: "exn + 'a \<Rightarrow> ('a \<Rightarrow> exn + 'b) \<Rightarrow> exn + 'b" where
  \<comment> \<open>run the first step; an exception ends the computation\<close>
  "and_then m f = (case m of Inl e \<Rightarrow> Inl e | Inr x \<Rightarrow> f x)"

fun for_each :: "('s \<Rightarrow> 'a \<Rightarrow> exn + 's) \<Rightarrow> 's \<Rightarrow> 'a list \<Rightarrow> exn + 's" where
  \<comment> \<open>a \<^verbatim>\<open>for\<close> loop over the items, threading the variables it assigns\<close>
  "for_each body st [] = Inr st"
| "for_each body st (x # xs) =
     (case body st x of Inl e \<Rightarrow> Inl e | Inr st' \<Rightarrow> for_each body st' xs)"

section \<open>The streaming parser\<close>

text \<open>
  \<^verbatim>\<open>cortex_analyst_sql_stream\<close> (the flight and the hotel module hold the same loop) reads
  the lines that \<^verbatim>\<open>resp.iter_lines(decode_unicode=True)\<close> delivers. Reading can deliver
  a line, deliver \<^verbatim>\<open>None\<close>, or raise (a transport failure, also of the POST itself), after
  which nothing more is read.
\<close>

datatype line_item =
    Line string
  | LineNone
  | Broken string

text \<open>
  The loop, with \<open>prev_event\<close> as its state and the list of yielded values as its result.
  \<open>loads\<close> is \<^verbatim>\<open>json.loads\<close>, \<open>None\<close> where it raises. The branch order is the source's:
  blank, \<^verbatim>\<open>event:\<close>, \<^verbatim>\<open>data:\<close>, \<^verbatim>\<open>event: done\<close>.
\<close>

definition data_body :: "string \<Rightarrow> string" where
  \<comment> \<open>\<^verbatim>\<open>line[len("data: "):]\<close>\<close>
  "data_body line = drop (length ''data: '') line"

fun stream_loop :: "(string \<Rightarrow> pyval option) \<Rightarrow> string option \<Rightarrow> line_item list \<Rightarrow> pyval list" where
  "stream_loop loads prev_event [] = []"
| "stream_loop loads prev_event (Broken msg # rest) =
     [PDict [(PStr ''error'', PStr (''Cortex Analyst streaming exception: '' @ msg))]]"
| "stream_loop loads prev_event (LineNone # rest) = stream_loop loads prev_event rest"
| "stream_loop loads prev_event (Line line # rest) =
     (if strip line = '''' then stream_loop loads prev_event rest
      else if startswith line ''event:'' then stream_loop loads (Some (strip line)) rest
      else if startswith line ''data:'' then
        (if prev_event = Some ''event: message.delta'' then
           (case loads (data_body line) of
              Some data \<Rightarrow> data # stream_loop loads prev_event rest
            | None \<Rightarrow> stream_loop loads prev_event rest)
         else if prev_event = Some ''event: error'' then stream_loop loads prev_event rest
         else stream_loop loads prev_event rest)
      else if startswith line ''event: done'' then []
      else stream_loop loads prev_event rest)"

definition cortex_analyst_sql_stream :: "(string \<Rightarrow> pyval option) \<Rightarrow> line_item list \<Rightarrow> pyval list" where
  "cortex_analyst_sql_stream loads lines = stream_loop loads None lines"

section \<open>The world outside\<close>

text \<open>
  Every external collaborator is a field of one record, so that each function below is a
  function of the world it runs in. A call that can raise returns \<open>exn + _\<close>. The
  dataframe library is not modelled: a frame is a value of the type parameter \<open>'df\<close>, and
  \<^verbatim>\<open>.empty\<close>, \<^verbatim>\<open>to_markdown\<close>, the column assignment, \<^verbatim>\<open>pd.concat\<close> and
  \<^verbatim>\<open>pd.DataFrame()\<close> are fields.
\<close>

record stream_request =
  response_instruction :: string
  semantic_model_file :: string
  stream_query :: string

record bedrock_request =
  region_name :: string
  max_tokens :: nat
  temperature :: rat
  system_prompt :: string
  user_message :: string

text \<open>
  What \<^verbatim>\<open>my_service.search\<close> returns, seen through the three conversions the activity
  agent tries: \<open>None\<close> where the attribute is missing, \<open>Inl\<close> where the conversion raises.
\<close>

record 'df search_response =
  resp_to_df :: "(exn + 'df option) option"
  resp_results :: "(exn + 'df) option"
  resp_frame :: "exn + 'df"

record 'df world =
  post_stream :: "stream_request \<Rightarrow> line_item list"
  json_loads :: "string \<Rightarrow> pyval option"
  literal_eval :: "string \<Rightarrow> pyval option"
  py_repr :: "pyval \<Rightarrow> string"
  str_title :: "string \<Rightarrow> string"
  snowflake_fetch :: "pyval \<Rightarrow> exn + 'df"
  invoke_model :: "bedrock_request \<Rightarrow> exn + pyval"
  get_last_k_turns :: "string option \<Rightarrow> string \<Rightarrow> string \<Rightarrow> nat \<Rightarrow> exn + pyval"
  connect_search :: "exn + unit"
  search :: "string \<Rightarrow> nat \<Rightarrow> exn + 'df search_response"
  df_empty :: "'df \<Rightarrow> bool"
  to_markdown :: "'df \<Rightarrow> string"
  set_city :: "'df \<Rightarrow> pyval \<Rightarrow> 'df"
  pd_concat :: "'df list \<Rightarrow> 'df"
  empty_frame :: "'df"

text \<open>The arguments an agent factory is called with (the memory client is in the world).\<close>

record agent_args =
  memory_id :: "string option"
  actor_id :: string
  session_id :: string
  region :: string

section \<open>The booking agents\<close>

text \<open>
  The variables the agent's loop over the streamed payloads assigns (\<open>interp\<close> is the
  source's \<^verbatim>\<open>interpretation\<close>).
\<close>

record drain_state =
  streamed_text :: string
  interp :: pyval
  sql_code :: pyval

definition result_step :: "drain_state \<Rightarrow> pyval \<Rightarrow> exn + drain_state" where
  \<comment> \<open>the body of \<^verbatim>\<open>for result in tool_results.get("content", [])\<close>\<close>
  "result_step st result =
     and_then (py_get result ''type'' PNone) (\<lambda>t.
       if t = PStr ''json'' then
         and_then (py_get result ''json'' (PDict [])) (\<lambda>json_data.
         and_then (py_in ''text'' json_data) (\<lambda>has_text.
         and_then (if has_text
                   then and_then (py_subscript json_data ''text'') (\<lambda>v. Inr (st\<lparr>interp := v\<rparr>))
                   else Inr st) (\<lambda>st1.
         and_then (py_in ''sql'' json_data) (\<lambda>has_sql.
           if has_sql
           then and_then (py_subscript json_data ''sql'') (\<lambda>v. Inr (st1\<lparr>sql_code := v\<rparr>))
           else Inr st1))))
       else Inr st)"

definition content_item_step :: "drain_state \<Rightarrow> pyval \<Rightarrow> exn + drain_state" where
  \<comment> \<open>the body of \<^verbatim>\<open>for content_item in content\<close>\<close>
  "content_item_step st content_item =
     and_then (py_get content_item ''type'' PNone) (\<lambda>t.
       if t = PStr ''text'' then
         and_then (py_get content_item ''text'' (PStr '''')) (\<lambda>v.
         and_then (py_concat (streamed_text st) v) (\<lambda>s. Inr (st\<lparr>streamed_text := s\<rparr>)))
       else if t = PStr ''tool_results'' then
         and_then (py_get content_item ''tool_results'' (PDict [])) (\<lambda>tool_results.
         and_then (py_get tool_results ''content'' (PList [])) (\<lambda>results.
         and_then (py_iter results) (\<lambda>rs. for_each result_step st rs)))
       else Inr st)"

definition event_step :: "drain_state \<Rightarrow> pyval \<Rightarrow> exn + drain_state" where
  \<comment> \<open>the body of \<^verbatim>\<open>for data in cortex_analyst_sql_stream(query)\<close> after the error test\<close>
  "event_step st data =
     and_then (py_get data ''delta'' (PDict [])) (\<lambda>delta.
     and_then (py_get delta ''content'' (PList [])) (\<lambda>content.
     and_then (py_iter content) (\<lambda>items. for_each content_item_step st items)))"

text \<open>
  The loop over the payloads either runs to the end of the stream or returns from the
  agent at the first payload holding \<^verbatim>\<open>"error"\<close>.
\<close>

datatype drain_outcome =
    Drained drain_state
  | ErrorSeen drain_state

fun drain_events :: "drain_state \<Rightarrow> pyval list \<Rightarrow> exn + drain_outcome" where
  "drain_events st [] = Inr (Drained st)"
| "drain_events st (data # rest) =
     (case py_in ''error'' data of
        Inl e \<Rightarrow> Inl e
      | Inr True \<Rightarrow> Inr (ErrorSeen st)
      | Inr False \<Rightarrow>
          (case event_step st data of
             Inl e \<Rightarrow> Inl e
           | Inr st' \<Rightarrow> drain_events st' rest))"

definition initial_state :: drain_state where
  "initial_state = \<lparr>streamed_text = '''', interp = PNone, sql_code = PNone\<rparr>"

definition run_sql_on_snowflake :: "'df world \<Rightarrow> pyval \<Rightarrow> 'df option" where
  \<comment> \<open>any exception of the connection, the query or the fetch gives \<^verbatim>\<open>None\<close>\<close>
  "run_sql_on_snowflake w sql = (case snowflake_fetch w sql of Inl e \<Rightarrow> None | Inr df \<Rightarrow> Some df)"

definition content_text :: "pyval \<Rightarrow> exn + string" where
  \<comment> \<open>\<^verbatim>\<open>result["content"][0]["text"].strip() if result.get("content") else ""\<close>\<close>
  "content_text result =
     and_then (py_get result ''content'' PNone) (\<lambda>c.
       if py_truth c then
         and_then (py_subscript result ''content'') (\<lambda>content.
         and_then (py_first content) (\<lambda>block.
         and_then (py_subscript block ''text'') py_strip))
       else Inr '''')"

definition newline :: string where
  "newline = [CHR 0x0A]"

definition get_best_flight_from_claude :: "'df world \<Rightarrow> 'df \<Rightarrow> string \<Rightarrow> string \<Rightarrow> exn + string" where
  "get_best_flight_from_claude w table_df user_query rgn =
     (let table_str = to_markdown w table_df;
          sys = ''You are a travel assistant. Given a table of flight options and a user query, ''
                @ ''return the best 3 flight options as english text with all details'';
          msg = ''The user asked: '' @ user_query @ newline
                @ ''Here are the available flight options in a table:'' @ newline @ newline
                @ table_str
      in and_then
           (invoke_model w \<lparr>region_name = rgn, max_tokens = 1024, temperature = 2 / 10,
                             system_prompt = sys, user_message = msg\<rparr>)
           content_text)"

definition get_best_hotel_from_claude :: "'df world \<Rightarrow> 'df \<Rightarrow> string \<Rightarrow> string \<Rightarrow> exn + string" where
  "get_best_hotel_from_claude w table_df user_query rgn =
     (let table_str = to_markdown w table_df;
          sys = ''You are a travel assistant. Given a table of hotel options and a user query, ''
                @ ''return the best 3 flight options as english text with all details'';
          msg = ''The user asked: '' @ user_query @ newline
                @ ''Here are the available hotel options in a table:'' @ newline @ newline
                @ table_str
      in and_then
           (invoke_model w \<lparr>region_name = rgn, max_tokens = 512, temperature = 2 / 10,
                             system_prompt = sys, user_message = msg\<rparr>)
           content_text)"

type_synonym 'df booking_result = "string \<times> pyval \<times> pyval \<times> string option \<times> 'df option"

text \<open>
  The body of \<^verbatim>\<open>agent(query)\<close>, the same in both modules up to the streaming request and
  the ranking function: the loop over the payloads, the test of \<^verbatim>\<open>sql_code\<close>, the
  query, and the ranking call when the frame is there and not empty.
\<close>

definition booking_agent ::
  "'df world \<Rightarrow> (string \<Rightarrow> stream_request) \<Rightarrow> ('df \<Rightarrow> string \<Rightarrow> exn + string) \<Rightarrow> string
     \<Rightarrow> exn + 'df booking_result" where
  "booking_agent w request get_best query =
     (case drain_events initial_state
             (cortex_analyst_sql_stream (json_loads w) (post_stream w (request query))) of
        Inl e \<Rightarrow> Inl e
      | Inr (ErrorSeen st) \<Rightarrow> Inr (streamed_text st, interp st, PNone, None, None)
      | Inr (Drained st) \<Rightarrow>
          if \<not> py_truth (sql_code st)
          then Inr (streamed_text st, interp st, PNone, None, None)
          else
            (let df = run_sql_on_snowflake w (sql_code st)
             in case df of
                  None \<Rightarrow> Inr (streamed_text st, interp st, sql_code st, None, df)
                | Some table \<Rightarrow>
                    if \<not> df_empty w table
                    then and_then (get_best table query) (\<lambda>best_option.
                           Inr (streamed_text st, interp st, sql_code st, Some best_option, df))
                    else Inr (streamed_text st, interp st, sql_code st, None, df)))"

definition flight_request :: "string \<Rightarrow> stream_request" where
  "flight_request query =
     \<lparr>response_instruction = ''Generate SQL for flight booking queries.'',
      semantic_model_file = ''@TRAVEL_DB.PUBLIC.DOCS/travel_data.yaml'',
      stream_query = query\<rparr>"

definition hotel_request :: "string \<Rightarrow> stream_request" where
  "hotel_request query =
     \<lparr>response_instruction = ''Generate SQL for hotel booking queries.'',
      semantic_model_file = ''@TRAVEL_DB.PUBLIC.DOCS/hotel_booking.yaml'',
      stream_query = query\<rparr>"

definition create_flight_booking_agent ::
  "'df world \<Rightarrow> agent_args \<Rightarrow> string \<Rightarrow> exn + 'df booking_result" where
  "create_flight_booking_agent w args query =
     booking_agent w flight_request
       (\<lambda>df q. get_best_flight_from_claude w df q (region args)) query"

definition create_hotel_booking_agent ::
  "'df world \<Rightarrow> agent_args \<Rightarrow> string \<Rightarrow> exn + 'df booking_result" where
  "create_hotel_booking_agent w args query =
     booking_agent w hotel_request
       (\<lambda>df q. get_best_hotel_from_claude w df q (region args)) query"

section \<open>Structured extraction\<close>

definition py_str :: "(pyval \<Rightarrow> string) \<Rightarrow> pyval \<Rightarrow> string" where
  \<comment> \<open>\<^verbatim>\<open>str(v)\<close>, also what an f-string inserts: a string is itself, any other value is
      written by the library (\<open>repr\<close>)\<close>
  "py_str repr v = (case v of PStr s \<Rightarrow> s | _ \<Rightarrow> repr v)"

definition default_trip_info :: pyval where
  "default_trip_info =
     PDict [(PStr ''source_city'', PStr ''''), (PStr ''dest_cities'', PList []),
            (PStr ''duration'', PNone)]"

definition parse_trip_info :: "'df world \<Rightarrow> string \<Rightarrow> pyval" where
  \<comment> \<open>the \<^verbatim>\<open>try\<close> block that ends \<^verbatim>\<open>extract_trip_info_with_claude\<close>: the literal is
      returned when it is a dict, whatever is in it\<close>
  "parse_trip_info w text =
     (case literal_eval w text of
        Some (PDict info) \<Rightarrow> PDict info
      | _ \<Rightarrow> default_trip_info)"

definition parse_cities :: "'df world \<Rightarrow> string \<Rightarrow> string list" where
  \<comment> \<open>the \<^verbatim>\<open>try\<close> block that ends \<^verbatim>\<open>extract_cities_with_claude\<close>: every element of a
      list goes through \<^verbatim>\<open>str\<close>\<close>
  "parse_cities w text =
     (case literal_eval w text of
        Some (PList cities) \<Rightarrow> map (py_str (py_repr w)) cities
      | _ \<Rightarrow> [])"

definition trip_info_request :: "string \<Rightarrow> string \<Rightarrow> bedrock_request" where
  \<comment> \<open>the request of \<^verbatim>\<open>extract_trip_info_with_claude\<close>\<close>
  \<open>trip_info_request user_query rgn =
     \<lparr>region_name = rgn, max_tokens = 1024, temperature = 0,
      system_prompt =
        ''You are a travel assistant. Given a user travel query, extract the following as a Python dict: ''
        @ [CHR 0x27] @ ''source_city'' @ [CHR 0x27] @ '': the city the trip starts from, ''
        @ [CHR 0x27] @ ''dest_cities'' @ [CHR 0x27]
        @ '': a list of destination cities (excluding the source), ''
        @ [CHR 0x27] @ ''duration'' @ [CHR 0x27]
        @ '': the number of days for the trip (as an integer, or None if not specified). ''
        @ ''Return only a valid Python dict, e.g. {'' @ [CHR 0x27] @ ''dest_cities'' @ [CHR 0x27]
        @ '': ['' @ [CHR 0x27] @ ''Mumbai'' @ [CHR 0x27] @ '', '' @ [CHR 0x27] @ ''Pune''
        @ [CHR 0x27] @ ''], '' @ [CHR 0x27] @ ''duration'' @ [CHR 0x27]
        @ '': 15 days}. Do not explain.'',
      user_message =
        ''Extract the source city, destination cities, and trip duration from this travel query: "''
        @ user_query @ ''".''\<rparr>\<close>

definition extract_trip_info_with_claude :: "'df world \<Rightarrow> string \<Rightarrow> string \<Rightarrow> exn + pyval" where
  "extract_trip_info_with_claude w user_query rgn =
     and_then (invoke_model w (trip_info_request user_query rgn)) (\<lambda>result.
     and_then (content_text result) (\<lambda>text. Inr (parse_trip_info w text)))"

definition cities_request :: "string \<Rightarrow> string \<Rightarrow> bedrock_request" where
  \<comment> \<open>the request of \<^verbatim>\<open>extract_cities_with_claude\<close>\<close>
  \<open>cities_request user_query rgn =
     \<lparr>region_name = rgn, max_tokens = 128, temperature = 0,
      system_prompt =
        ''You are a travel assistant. Given a user travel query, extract the destination cities. Skip the source city ''
        @ ''Return only a valid Python list of city names, e.g. ['' @ [CHR 0x27] @ ''Mumbai''
        @ [CHR 0x27] @ '', '' @ [CHR 0x27] @ ''Pune'' @ [CHR 0x27] @ '']. Do not explain.'',
      user_message =
        ''Extract all destination cities from this travel query: "'' @ user_query @ ''".''\<rparr>\<close>

definition extract_cities_with_claude :: "'df world \<Rightarrow> string \<Rightarrow> string \<Rightarrow> exn + string list" where
  "extract_cities_with_claude w user_query rgn =
     and_then (invoke_model w (cities_request user_query rgn)) (\<lambda>result.
     and_then (content_text result) (\<lambda>text. Inr (parse_cities w text)))"

section \<open>The activity planner agent\<close>

definition py_title :: "'df world \<Rightarrow> pyval \<Rightarrow> exn + string" where
  \<comment> \<open>\<^verbatim>\<open>v.title()\<close>: only a string has it\<close>
  "py_title w v = (case v of PStr s \<Rightarrow> Inr (str_title w s) | _ \<Rightarrow> Inl AttributeError)"

definition message_step :: "'df world \<Rightarrow> string \<Rightarrow> pyval \<Rightarrow> exn + string" where
  \<comment> \<open>the body of \<^verbatim>\<open>for message in turn\<close>\<close>
  "message_step w context message =
     and_then (py_subscript message ''role'') (\<lambda>role.
     and_then (py_subscript message ''content'') (\<lambda>c.
     and_then (py_subscript c ''text'') (\<lambda>content.
     and_then (py_title w role) (\<lambda>titled.
       Inr (context @ titled @ '': '' @ py_str (py_repr w) content @ newline)))))"

definition get_recent_context :: "'df world \<Rightarrow> agent_args \<Rightarrow> nat \<Rightarrow> exn + string" where
  "get_recent_context w args k =
     and_then (get_last_k_turns w (memory_id args) (actor_id args) (session_id args) k) (\<lambda>recent_turns.
     and_then (py_iter recent_turns) (\<lambda>turns.
       for_each (\<lambda>context turn.
                   and_then (py_iter turn) (\<lambda>messages. for_each (message_step w) context messages))
         '''' turns))"

definition upper_letters :: string where
  \<comment> \<open>the capitals among the code points below 256: A to Z, and the Latin-1 capitals\<close>
  "upper_letters = ''ABCDEFGHIJKLMNOPQRSTUVWXYZ'' @
     [CHR 0xC0, CHR 0xC1, CHR 0xC2, CHR 0xC3, CHR 0xC4, CHR 0xC5, CHR 0xC6, CHR 0xC7, CHR 0xC8,
      CHR 0xC9, CHR 0xCA, CHR 0xCB, CHR 0xCC, CHR 0xCD, CHR 0xCE, CHR 0xCF, CHR 0xD0, CHR 0xD1,
      CHR 0xD2, CHR 0xD3, CHR 0xD4, CHR 0xD5, CHR 0xD6, CHR 0xD8, CHR 0xD9, CHR 0xDA, CHR 0xDB,
      CHR 0xDC, CHR 0xDD, CHR 0xDE]"

definition lower_letters :: string where
  \<comment> \<open>their small letters, in the same order\<close>
  "lower_letters = ''abcdefghijklmnopqrstuvwxyz'' @
     [CHR 0xE0, CHR 0xE1, CHR 0xE2, CHR 0xE3, CHR 0xE4, CHR 0xE5, CHR 0xE6, CHR 0xE7, CHR 0xE8,
      CHR 0xE9, CHR 0xEA, CHR 0xEB, CHR 0xEC, CHR 0xED, CHR 0xEE, CHR 0xEF, CHR 0xF0, CHR 0xF1,
      CHR 0xF2, CHR 0xF3, CHR 0xF4, CHR 0xF5, CHR 0xF6, CHR 0xF8, CHR 0xF9, CHR 0xFA, CHR 0xFB,
      CHR 0xFC, CHR 0xFD, CHR 0xFE]"

definition lower_char :: "char \<Rightarrow> char" where
  \<comment> \<open>\<^verbatim>\<open>str.lower\<close> on one code point below 256\<close>
  "lower_char c = (case map_of (zip upper_letters lower_letters) c of None \<Rightarrow> c | Some l \<Rightarrow> l)"

definition lower :: "string \<Rightarrow> string" where
  "lower s = map lower_char s"

definition keep_city :: "pyval \<Rightarrow> pyval list \<Rightarrow> pyval \<Rightarrow> exn + pyval list" where
  \<comment> \<open>one round of the comprehension that drops the source city from \<^verbatim>\<open>dest_cities\<close>\<close>
  "keep_city source_city kept city =
     and_then (py_strip city) (\<lambda>c.
     and_then (py_strip source_city) (\<lambda>s.
       Inr (if lower c \<noteq> lower s then kept @ [city] else kept)))"

definition frame_of_response :: "'df search_response \<Rightarrow> 'df option" where
  \<comment> \<open>\<^verbatim>\<open>resp.to_df()\<close>, then \<^verbatim>\<open>pd.DataFrame(resp.results)\<close>, then \<^verbatim>\<open>pd.DataFrame(resp)\<close>;
      an exception of one leaves \<^verbatim>\<open>df\<close> as it was\<close>
  "frame_of_response resp =
     (let df1 = (case resp_to_df resp of Some (Inr d) \<Rightarrow> d | _ \<Rightarrow> None);
          df2 = (case df1 of
                   None \<Rightarrow> (case resp_results resp of Some (Inr d) \<Rightarrow> Some d | _ \<Rightarrow> None)
                 | Some d \<Rightarrow> Some d)
      in case df2 of
           None \<Rightarrow> (case resp_frame resp of Inr d \<Rightarrow> Some d | Inl e \<Rightarrow> None)
         | Some d \<Rightarrow> Some d)"

definition activity_step :: "'df world \<Rightarrow> pyval \<Rightarrow> nat \<Rightarrow> 'df list \<Rightarrow> pyval \<Rightarrow> exn + 'df list" where
  \<comment> \<open>the body of \<^verbatim>\<open>for city in dest_cities\<close>\<close>
  "activity_step w duration limit all_activities city =
     (let cortex_query = ''Find activities and experiences for a traveler in ''
            @ py_str (py_repr w) city @ ''. Trip duration: '' @ py_str (py_repr w) duration @ '' days.''
      in and_then (search w cortex_query limit) (\<lambda>resp.
           case frame_of_response resp of
             None \<Rightarrow> Inr all_activities
           | Some df \<Rightarrow>
               if \<not> df_empty w df then Inr (all_activities @ [set_city w df city])
               else Inr all_activities))"

fun py_join :: "string \<Rightarrow> pyval list \<Rightarrow> exn + string" where
  \<comment> \<open>\<^verbatim>\<open>sep.join(items)\<close>: every item must be a string\<close>
  "py_join sep [] = Inr ''''"
| "py_join sep [PStr s] = Inr s"
| "py_join sep (PStr s # item # items) =
     (case py_join sep (item # items) of Inl e \<Rightarrow> Inl e | Inr t \<Rightarrow> Inr (s @ sep @ t))"
| "py_join sep (v # items) = Inl TypeError"

definition get_daywise_plan_from_claude ::
  "'df world \<Rightarrow> 'df \<Rightarrow> string \<Rightarrow> pyval \<Rightarrow> pyval list \<Rightarrow> string \<Rightarrow> exn + string" where
  "get_daywise_plan_from_claude w activities_df user_query source_city dest_cities rgn =
     (let table_str = to_markdown w activities_df;
          sys = ''You are a travel assistant. Given a table of activities and a user query, create a detailed day-wise travel plan. ''
                @ ''The trip starts in the source city and visits only the destination cities. ''
                @ ''Do NOT include the source city plan. ''
                @ ''Create a detailed plan for each day, suggest the  activities, and present the plan as detailed as possible.''
      in and_then (py_join '', '' dest_cities) (\<lambda>joined.
           (let msg = ''The user asked: '' @ user_query @ newline
                  @ ''Source city: '' @ py_str (py_repr w) source_city @ newline
                  @ ''Destination cities: '' @ joined @ newline
                  @ ''Here are the available activities in a table:'' @ newline @ newline
                  @ table_str
            in and_then
                 (invoke_model w \<lparr>region_name = rgn, max_tokens = 1024, temperature = 2 / 10,
                                   system_prompt = sys, user_message = msg\<rparr>)
                 content_text)))"

type_synonym 'df activity_result = "string \<times> string \<times> string \<times> 'df"

definition create_activity_planner_agent ::
  "'df world \<Rightarrow> agent_args \<Rightarrow> string \<Rightarrow> nat \<Rightarrow> exn + 'df activity_result" where
  "create_activity_planner_agent w args user_query limit =
     and_then (get_recent_context w args 5) (\<lambda>context.
     and_then (extract_trip_info_with_claude w user_query (region args)) (\<lambda>trip_info.
     and_then (py_get trip_info ''source_city'' (PStr '''')) (\<lambda>source_city.
     and_then (py_get trip_info ''dest_cities'' (PList [])) (\<lambda>dest_cities0.
     and_then (py_get trip_info ''duration'' PNone) (\<lambda>duration.
     and_then (py_iter dest_cities0) (\<lambda>cities.
     and_then (for_each (keep_city source_city) [] cities) (\<lambda>dest_cities.
     and_then (connect_search w) (\<lambda>session.
     and_then (for_each (activity_step w duration limit) [] dest_cities) (\<lambda>all_activities.
       (let activities_df =
              (if all_activities \<noteq> [] then pd_concat w all_activities else empty_frame w)
        in if \<not> df_empty w activities_df
           then and_then
                  (get_daywise_plan_from_claude w activities_df user_query source_city
                     dest_cities (region args))
                  (\<lambda>plan_md. Inr ('''', '''', plan_md, activities_df))
           else Inr ('''', '''', ''No activities found.'', activities_df)))))))))))"

section \<open>The orchestrator\<close>

definition ACTOR_ID :: string where
  "ACTOR_ID = ''flight_user_001''"

definition SESSION_ID :: string where
  "SESSION_ID = ''flight_session_001''"

text \<open>
  The three module-level factory calls. \<open>MEMORY_ID\<close> and \<open>REGION\<close> are computed when the
  module is loaded (from the memory service and the environment) and are arguments here.
\<close>

definition flight_agent_args :: "string option \<Rightarrow> string \<Rightarrow> agent_args" where
  "flight_agent_args MEMORY_ID REGION =
     \<lparr>memory_id = MEMORY_ID, actor_id = ACTOR_ID, session_id = SESSION_ID, region = REGION\<rparr>"

definition hotel_agent_args :: "string option \<Rightarrow> string \<Rightarrow> agent_args" where
  "hotel_agent_args MEMORY_ID REGION =
     \<lparr>memory_id = MEMORY_ID, actor_id = ACTOR_ID, session_id = SESSION_ID, region = REGION\<rparr>"

definition activity_agent_args :: "string option \<Rightarrow> string \<Rightarrow> agent_args" where
  "activity_agent_args MEMORY_ID REGION =
     \<lparr>memory_id = MEMORY_ID, actor_id = ACTOR_ID, session_id = SESSION_ID, region = REGION\<rparr>"

definition flight_agent :: "'df world \<Rightarrow> string option \<Rightarrow> string \<Rightarrow> string \<Rightarrow> exn + 'df booking_result" where
  "flight_agent w MEMORY_ID REGION = create_flight_booking_agent w (flight_agent_args MEMORY_ID REGION)"

definition hotel_agent :: "'df world \<Rightarrow> string option \<Rightarrow> string \<Rightarrow> string \<Rightarrow> exn + 'df booking_result" where
  "hotel_agent w MEMORY_ID REGION = create_hotel_booking_agent w (hotel_agent_args MEMORY_ID REGION)"

definition activity_agent :: "'df world \<Rightarrow> string option \<Rightarrow> string \<Rightarrow> string \<Rightarrow> exn + 'df activity_result" where
  "activity_agent w MEMORY_ID REGION user_query =
     create_activity_planner_agent w (activity_agent_args MEMORY_ID REGION) user_query 10"

text \<open>
  A future is modelled by what its \<^verbatim>\<open>result()\<close> gives: the value the task returned, or
  the exception it raised, which \<^verbatim>\<open>result()\<close> raises again in the caller. The tasks
  share no variable, so what one task returns does not depend on when the others run.
\<close>

definition hotel_futures ::
  "'df world \<Rightarrow> string option \<Rightarrow> string \<Rightarrow> string list \<Rightarrow> (exn + 'df booking_result) list" where
  \<comment> \<open>\<^verbatim>\<open>[executor.submit(hotel_agent, f"Find hotels in {city}") for city in hotel_cities]\<close>\<close>
  "hotel_futures w MEMORY_ID REGION hotel_cities =
     map (\<lambda>city. hotel_agent w MEMORY_ID REGION (''Find hotels in '' @ city)) hotel_cities"

definition hotel_results ::
  "string list \<Rightarrow> (exn + 'df booking_result) list \<Rightarrow> exn + (string \<times> 'df booking_result) list" where
  \<comment> \<open>\<^verbatim>\<open>for city, future in zip(hotel_cities, hotel_futures)\<close>, taking \<^verbatim>\<open>future.result()\<close>\<close>
  "hotel_results hotel_cities futures =
     for_each (\<lambda>shown (city, future). and_then future (\<lambda>r. Inr (shown @ [(city, r)])))
       [] (zip hotel_cities futures)"

type_synonym 'df aggregate =
  "'df booking_result \<times> (string \<times> 'df booking_result) list \<times> 'df activity_result"

definition main :: "'df world \<Rightarrow> string option \<Rightarrow> string \<Rightarrow> string \<Rightarrow> exn + 'df aggregate option" where
  \<comment> \<open>the results \<^verbatim>\<open>main\<close> takes from its futures, in the order it takes them; what it
      draws on the page is left out\<close>
  "main w MEMORY_ID REGION travel_query =
     (if travel_query \<noteq> '''' then
        (let flight_future = flight_agent w MEMORY_ID REGION travel_query
         in and_then (extract_cities_with_claude w travel_query REGION) (\<lambda>hotel_cities.
              (let futures = hotel_futures w MEMORY_ID REGION hotel_cities;
                   activity_future = activity_agent w MEMORY_ID REGION travel_query
               in and_then flight_future (\<lambda>flight.
                  and_then (hotel_results hotel_cities futures) (\<lambda>hotels.
                  and_then activity_future (\<lambda>activity.
                    Inr (Some (flight, hotels, activity))))))))
      else Inr None)"

section \<open>The wire format seen from the agent\<close>

text \<open>
  The payload of a \<^verbatim>\<open>message.delta\<close> event carries a text fragment or a tool result with
  a generated query (\<^verbatim>\<open>sql\<close>) and its interpretation (\<^verbatim>\<open>text\<close>). \<open>payload_of\<close> is the
  JSON value of each, as the agent's loop reads it.
\<close>

datatype stream_event =
    TextDelta string
  | ToolResultDelta pyval pyval

fun payload_of :: "stream_event \<Rightarrow> pyval" where
  "payload_of (TextDelta s) =
     PDict [(PStr ''delta'', PDict [(PStr ''content'',
       PList [PDict [(PStr ''type'', PStr ''text''), (PStr ''text'', PStr s)]])])]"
| "payload_of (ToolResultDelta sql text) =
     PDict [(PStr ''delta'', PDict [(PStr ''content'',
       PList [PDict [(PStr ''type'', PStr ''tool_results''),
                     (PStr ''tool_results'', PDict [(PStr ''content'',
                        PList [PDict [(PStr ''type'', PStr ''json''),
                                      (PStr ''json'', PDict [(PStr ''sql'', sql),
                                                             (PStr ''text'', text)])]])])]])])]"

fun absorb :: "drain_state \<Rightarrow> stream_event \<Rightarrow> drain_state" where
  \<comment> \<open>what one event does to the agent's variables\<close>
  "absorb st (TextDelta s) = st\<lparr>streamed_text := streamed_text st @ s\<rparr>"
| "absorb st (ToolResultDelta sql text) = st\<lparr>interp := text, sql_code := sql\<rparr>"




text \<open>
  The lines of a well-formed stream: each payload is a \<^verbatim>\<open>message.delta\<close> label followed
  by one data line.
\<close>

definition frame :: "string \<Rightarrow> line_item list" where
  "frame body = [Line ''event: message.delta'', Line (''data: '' @ body)]"

definition frames :: "string list \<Rightarrow> line_item list" where
  "frames bodies = concat (map frame bodies)"

text \<open>
  Payloads on which the agent's loop raises nothing: the containers it walks through are
  dicts and lists, and a text fragment is a string.
\<close>

fun is_dict :: "pyval \<Rightarrow> bool" where
  "is_dict (PDict kvs) = True"
| "is_dict v = False"

fun wf_result :: "pyval \<Rightarrow> bool" where
  "wf_result (PDict kvs) =
     (case map_of kvs (PStr ''json'') of None \<Rightarrow> True | Some j \<Rightarrow> is_dict j)"
| "wf_result v = False"

fun wf_tool_results :: "pyval \<Rightarrow> bool" where
  "wf_tool_results (PDict kvs) =
     (case map_of kvs (PStr ''content'') of
        None \<Rightarrow> True
      | Some (PList rs) \<Rightarrow> list_all wf_result rs
      | Some v \<Rightarrow> False)"
| "wf_tool_results v = False"

fun wf_item :: "pyval \<Rightarrow> bool" where
  "wf_item (PDict kvs) =
     ((case map_of kvs (PStr ''text'') of None \<Rightarrow> True | Some (PStr s) \<Rightarrow> True | Some v \<Rightarrow> False)
      \<and> (case map_of kvs (PStr ''tool_results'') of None \<Rightarrow> True | Some tr \<Rightarrow> wf_tool_results tr))"
| "wf_item v = False"

fun wf_delta :: "pyval \<Rightarrow> bool" where
  "wf_delta (PDict kvs) =
     (case map_of kvs (PStr ''content'') of
        None \<Rightarrow> True
      | Some (PList items) \<Rightarrow> list_all wf_item items
      | Some v \<Rightarrow> False)"
| "wf_delta v = False"

fun wf_payload :: "pyval \<Rightarrow> bool" where
  "wf_payload (PDict kvs) =
     (case map_of kvs (PStr ''delta'') of None \<Rightarrow> True | Some d \<Rightarrow> wf_delta d)"
| "wf_payload v = False"

text \<open>The two shapes of a booking agent's result.\<close>

definition failure_shape :: "'df booking_result \<Rightarrow> bool" where
  \<comment> \<open>the fields after the streamed text and the interpretation are \<^verbatim>\<open>None\<close>\<close>
  "failure_shape r = (case r of (text, interpretation_text, sql, best, df) \<Rightarrow>
     sql = PNone \<and> best = None \<and> df = None)"

definition success_shape :: "'df booking_result \<Rightarrow> bool" where
  \<comment> \<open>a generated query is there\<close>
  "success_shape r = (case r of (text, interpretation_text, sql, best, df) \<Rightarrow> py_truth sql)"

section \<open>A sample world\<close>

text \<open>
  One concrete world, for the examples: the travel request of the dashboard's prompt,
  with Mumbai and Pune as destinations. The library functions are given by their values at
  the texts the examples use. The stream for the hotels of Pune breaks after its first
  payload. A frame is the list of its rows.
\<close>

definition hi_body :: string where
  \<open>hi_body = ''{"delta":{"content":[{"type":"text","text":"Hi"}]}}''\<close>

definition flights_body :: string where
  \<open>flights_body = ''{"delta":{"content":[{"type":"tool_results","tool_results":{"content":[{"type":"json","json":{"sql":"SELECT * FROM FLIGHTS","text":"All flights"}}]}}]}}''\<close>

definition hotels_body :: string where
  \<open>hotels_body = ''{"delta":{"content":[{"type":"tool_results","tool_results":{"content":[{"type":"json","json":{"sql":"SELECT * FROM HOTELS","text":"All hotels"}}]}}]}}''\<close>

definition boom_body :: string where
  \<open>boom_body = ''{"message":"boom"}''\<close>

definition sample_json_loads :: "string \<Rightarrow> pyval option" where
  "sample_json_loads body =
     (if body = hi_body then Some (payload_of (TextDelta ''Hi''))
      else if body = flights_body
        then Some (payload_of (ToolResultDelta (PStr ''SELECT * FROM FLIGHTS'') (PStr ''All flights'')))
      else if body = hotels_body
        then Some (payload_of (ToolResultDelta (PStr ''SELECT * FROM HOTELS'') (PStr ''All hotels'')))
      else if body = boom_body then Some (PDict [(PStr ''message'', PStr ''boom'')])
      else None)"

definition trip_text :: string where
  \<open>trip_text = ''{'source_city': 'Delhi', 'dest_cities': ['Mumbai','Pune'], 'duration': 5}''\<close>

definition trip_mapping :: pyval where
  "trip_mapping =
     PDict [(PStr ''source_city'', PStr ''Delhi''),
            (PStr ''dest_cities'', PList [PStr ''Mumbai'', PStr ''Pune'']),
            (PStr ''duration'', PInt 5)]"

definition cities_text :: string where
  \<open>cities_text = ''['Mumbai', 'Pune']''\<close>

definition sample_literal_eval :: "string \<Rightarrow> pyval option" where
  \<open>sample_literal_eval text =
     (if text = trip_text then Some trip_mapping
      else if text = cities_text then Some (PList [PStr ''Mumbai'', PStr ''Pune''])
      else if text = ''{'a': 1}'' then Some (PDict [(PStr ''a'', PInt 1)])
      else if text = ''[1, 2]'' then Some (PList [PInt 1, PInt 2])
      else if text = ''5'' then Some (PInt 5)
      else None)\<close>

definition sample_repr :: "pyval \<Rightarrow> string" where
  "sample_repr v =
     (if v = PInt 1 then ''1'' else if v = PInt 2 then ''2'' else if v = PInt 5 then ''5''
      else if v = PNone then ''None'' else ''?'')"

definition sample_title :: "string \<Rightarrow> string" where
  "sample_title s =
     (if s = ''user'' then ''User'' else if s = ''assistant'' then ''Assistant'' else s)"

definition sample_post :: "stream_request \<Rightarrow> line_item list" where
  "sample_post req =
     (if stream_query req = ''Find hotels in Pune''
        then frame hi_body @ [Broken ''connection reset'']
      else if response_instruction req = ''Generate SQL for hotel booking queries.''
        then frame hi_body @ frame hotels_body @ [Line ''event: done'']
      else frame hi_body @ frame flights_body @ [Line ''event: done''])"

definition sample_fetch :: "pyval \<Rightarrow> exn + string list list" where
  "sample_fetch sql =
     (if sql = PStr ''SELECT * FROM FLIGHTS'' then Inr [[''AI101'', ''Delhi'', ''Mumbai'']]
      else if sql = PStr ''SELECT * FROM HOTELS'' then Inr [[''Taj'', ''Mumbai'']]
      else Inl (ServiceError ''SQL compilation error''))"

definition reply :: "string \<Rightarrow> pyval" where
  \<comment> \<open>a model response holding one text block\<close>
  "reply text =
     PDict [(PStr ''content'', PList [PDict [(PStr ''type'', PStr ''text''), (PStr ''text'', PStr text)]])]"

definition sample_invoke :: "bedrock_request \<Rightarrow> exn + pyval" where
  "sample_invoke req =
     (if max_tokens req = 128 then Inr (reply cities_text)
      else if temperature req = 0 then Inr (reply trip_text)
      else Inr (reply '' Take the first option. ''))"

definition sample_turns :: pyval where
  "sample_turns =
     PList [PList [PDict [(PStr ''role'', PStr ''user''),
                          (PStr ''content'', PDict [(PStr ''text'', PStr ''hello'')])]]]"

definition sample_search :: "string \<Rightarrow> nat \<Rightarrow> exn + (string list list) search_response" where
  "sample_search cortex_query limit =
     (if cortex_query = ''Find activities and experiences for a traveler in Mumbai. Trip duration: 5 days.''
      then Inr \<lparr>resp_to_df = Some (Inr (Some [[''Gateway of India'']])), resp_results = None,
                resp_frame = Inl (ServiceError ''not tabular'')\<rparr>
      else Inr \<lparr>resp_to_df = None, resp_results = Some (Inl (ServiceError ''no rows'')),
                resp_frame = Inr []\<rparr>)"

definition sample_world :: "(string list list) world" where
  "sample_world =
     \<lparr>post_stream = sample_post,
      json_loads = sample_json_loads,
      literal_eval = sample_literal_eval,
      py_repr = sample_repr,
      str_title = sample_title,
      snowflake_fetch = sample_fetch,
      invoke_model = sample_invoke,
      get_last_k_turns = (\<lambda>mid actor sess k. Inr sample_turns),
      connect_search = Inr (),
      search = sample_search,
      df_empty = (\<lambda>rows. rows = []),
      to_markdown = (\<lambda>rows. concat (map (\<lambda>row. concat row @ newline) rows)),
      set_city = (\<lambda>rows city. map (\<lambda>row. row @ [py_str sample_repr city]) rows),
      pd_concat = concat,
      empty_frame = []\<rparr>"

definition no_hotel_ranking_world :: "(string list list) world" where
  \<comment> \<open>the sample world with the model call of the hotel ranking failing, every other
      call as before\<close>
  "no_hotel_ranking_world =
     sample_world\<lparr>invoke_model :=
       (\<lambda>req. if max_tokens req = 512 then Inl (ServiceError ''ThrottlingException'')
              else sample_invoke req)\<rparr>"




definition answering_world :: "string \<Rightarrow> (string list list) world" where
  \<comment> \<open>the sample world with the model answering every request with the given text\<close>
  "answering_world text = sample_world\<lparr>invoke_model := (\<lambda>req. Inr (reply text))\<rparr>"

section \<open>Facts about strings and lines\<close>

lemma strip_Nil_iff: "strip s = [] \<longleftrightarrow> (\<forall>c \<in> set s. is_space c)"
proof
  assume "strip s = []"
  then have all: "\<forall>x \<in> set (dropWhile is_space s). is_space x"
    by (simp add: strip_def dropWhile_eq_Nil_conv)
  have "dropWhile is_space s = []"
  proof (rule ccontr)
    assume ne: "dropWhile is_space s \<noteq> []"
    then have "\<not> is_space (hd (dropWhile is_space s))" by (rule hd_dropWhile)
    moreover from ne have "hd (dropWhile is_space s) \<in> set (dropWhile is_space s)" by simp
    ultimately show False using all by blast
  qed
  then show "\<forall>c \<in> set s. is_space c" by (simp add: dropWhile_eq_Nil_conv)
next
  assume "\<forall>c \<in> set s. is_space c"
  then show "strip s = []" by (auto simp: strip_def dest: set_dropWhileD)
qed

lemma startswith_not_blank:
  assumes "startswith s (c # cs)" "\<not> is_space c"
  shows "strip s \<noteq> []"
proof -
  from assms(1) have "c \<in> set s" unfolding startswith_def
    by (metis in_set_takeD list.set_intros(1))
  with assms(2) show ?thesis by (auto simp: strip_Nil_iff)
qed

lemma data_line_not_blank: "startswith s ''data:'' \<Longrightarrow> strip s \<noteq> []"
  by (erule startswith_not_blank) (simp add: is_space_def whitespace_def)

lemma event_line_not_blank: "startswith s ''event:'' \<Longrightarrow> strip s \<noteq> []"
  by (erule startswith_not_blank) (simp add: is_space_def whitespace_def)

lemma data_line_not_event: "startswith s ''data:'' \<Longrightarrow> \<not> startswith s ''event:''"
  unfolding startswith_def by (cases s) auto

lemma startswith_append: "startswith s (p @ q) \<Longrightarrow> startswith s p"
  unfolding startswith_def
  by (metis append_eq_conv_conj take_take length_append min.absorb1 le_add1 append_take_drop_id)

lemma done_line_is_event: "startswith s ''event: done'' \<Longrightarrow> startswith s ''event:''"
  using startswith_append [of s "''event:''" "'' done''"] by simp

lemma done_line_is_label:
  "startswith l ''event: done'' \<Longrightarrow>
   stream_loop loads pe (Line l # rest) = stream_loop loads (Some (strip l)) rest"
  by (simp add: done_line_is_event event_line_not_blank)

lemma stream_loop_skip_undecodable:
  "startswith l ''data:'' \<Longrightarrow> loads (data_body l) = None \<Longrightarrow>
   stream_loop loads pe (Line l # rest) = stream_loop loads pe rest"
  by (simp add: data_line_not_blank data_line_not_event)

lemma stream_loop_delete_undecodable:
  assumes "startswith l ''data:''" "loads (data_body l) = None"
  shows "stream_loop loads pe (pre @ Line l # post) = stream_loop loads pe (pre @ post)"
proof (induction pre arbitrary: pe)
  case Nil
  show ?case using assms by (simp only: append_Nil stream_loop_skip_undecodable)
next
  case (Cons x pre)
  show ?case
  proof (cases x)
    case (Line l')
    then show ?thesis using Cons.IH by (simp split: option.split)
  next
    case LineNone
    then show ?thesis using Cons.IH by simp
  next
    case (Broken msg)
    then show ?thesis by simp
  qed
qed

lemma strip_delta_label: "strip ''event: message.delta'' = ''event: message.delta''"
  by (simp add: strip_def is_space_def whitespace_def)

lemma stream_loop_label:
  "startswith l ''event:'' \<Longrightarrow>
   stream_loop loads pe (Line l # rest) = stream_loop loads (Some (strip l)) rest"
  by (simp add: event_line_not_blank)

lemma stream_loop_data_decoded:
  "startswith l ''data:'' \<Longrightarrow> loads (data_body l) = Some v \<Longrightarrow>
   stream_loop loads (Some ''event: message.delta'') (Line l # rest) =
     v # stream_loop loads (Some ''event: message.delta'') rest"
  by (simp add: data_line_not_blank data_line_not_event)

lemma stream_loop_frame:
  assumes l: "loads b = Some v"
  shows "stream_loop loads pe (frame b @ rest) =
           v # stream_loop loads (Some ''event: message.delta'') rest"
proof -
  have "stream_loop loads pe (frame b @ rest) =
        stream_loop loads pe (Line ''event: message.delta'' # Line (''data: '' @ b) # rest)"
    by (simp add: frame_def)
  also have "\<dots> = stream_loop loads (Some (strip ''event: message.delta'')) (Line (''data: '' @ b) # rest)"
    by (rule stream_loop_label) (simp add: startswith_def)
  also have "\<dots> = stream_loop loads (Some ''event: message.delta'') (Line (''data: '' @ b) # rest)"
    by (simp only: strip_delta_label)
  also have "\<dots> = v # stream_loop loads (Some ''event: message.delta'') rest"
    by (rule stream_loop_data_decoded) (simp_all add: startswith_def data_body_def l)
  finally show ?thesis .
qed

lemma stream_loop_frames:
  "list_all (\<lambda>(b, v). loads b = Some v) fs \<Longrightarrow>
   stream_loop loads pe (frames (map fst fs) @ rest) =
     map snd fs @ stream_loop loads (if fs = [] then pe else Some ''event: message.delta'') rest"
proof (induction fs arbitrary: pe)
  case Nil
  then show ?case by (simp add: frames_def)
next
  case (Cons f fs)
  obtain b v where f: "f = (b, v)" by (cases f)
  from Cons.prems f have l: "loads b = Some v" and r: "list_all (\<lambda>(b, v). loads b = Some v) fs" by auto
  have "frames (map fst (f # fs)) @ rest = frame b @ (frames (map fst fs) @ rest)"
    by (simp add: frames_def f)
  then show ?case using Cons.IH [OF r] l f by (simp add: stream_loop_frame)
qed

section \<open>Facts about the agent's loop\<close>

lemma and_then_Inr: "and_then (Inr x) f = f x"
  by (simp add: and_then_def)

lemma and_then_Inl: "and_then (Inl e) f = Inl e"
  by (simp add: and_then_def)

lemma for_each_append:
  "for_each body st (xs @ ys) =
     (case for_each body st xs of Inl e \<Rightarrow> Inl e | Inr st' \<Rightarrow> for_each body st' ys)"
  by (induction xs arbitrary: st) (auto split: sum.splits)

lemma for_each_total:
  assumes "\<And>x s. x \<in> set xs \<Longrightarrow> \<exists>s'. body s x = Inr s'"
  shows "\<exists>s'. for_each body st xs = Inr s'"
  using assms
proof (induction xs arbitrary: st)
  case Nil
  then show ?case by simp
next
  case (Cons x xs)
  from Cons.prems [of x st] obtain s1 where s1: "body st x = Inr s1" by auto
  from Cons.IH [of s1] Cons.prems obtain s2 where "for_each body s1 xs = Inr s2" by auto
  with s1 show ?case by simp
qed

lemma subscript_present:
  "PStr k \<in> set (map fst kvs) \<Longrightarrow> \<exists>v. py_subscript (PDict kvs) k = Inr v"
  by (cases "map_of kvs (PStr k)") (auto simp: map_of_eq_None_iff)

lemma result_step_total:
  assumes "wf_result r"
  shows "\<exists>st'. result_step st r = Inr st'"
proof -
  from assms obtain kvs where r: "r = PDict kvs" by (cases r) auto
  show ?thesis
  proof (cases "map_of kvs (PStr ''json'')")
    case None
    then show ?thesis
      by (simp add: r result_step_def and_then_Inr)
  next
    case (Some j)
    with assms r obtain jk where j: "j = PDict jk" by (cases j) auto
    have upd: "\<exists>s'. (if PStr k \<in> set (map fst jk)
                 then and_then (py_subscript (PDict jk) k) (\<lambda>v. Inr (f v))
                 else Inr s) = Inr s'" for k s and f :: "pyval \<Rightarrow> drain_state"
    proof (cases "PStr k \<in> set (map fst jk)")
      case True
      then obtain v where "py_subscript (PDict jk) k = Inr v"
        using subscript_present by blast
      with True show ?thesis by (simp only: if_True and_then_Inr) simp
    next
      case False
      then show ?thesis by (simp only: if_False) simp
    qed
    from upd [of "''text''" "\<lambda>v. st\<lparr>interp := v\<rparr>" st]
    obtain st1 where st1: "(if PStr ''text'' \<in> set (map fst jk)
                 then and_then (py_subscript (PDict jk) ''text'') (\<lambda>v. Inr (st\<lparr>interp := v\<rparr>))
                 else Inr st) = Inr st1" by blast
    from upd [of "''sql''" "\<lambda>v. st1\<lparr>sql_code := v\<rparr>" st1]
    obtain st2 where st2: "(if PStr ''sql'' \<in> set (map fst jk)
                 then and_then (py_subscript (PDict jk) ''sql'') (\<lambda>v. Inr (st1\<lparr>sql_code := v\<rparr>))
                 else Inr st1) = Inr st2" by blast
    show ?thesis
      using st1 st2 by (simp add: r Some j result_step_def and_then_Inr)
  qed
qed

lemma content_item_step_total:
  assumes "wf_item c"
  shows "\<exists>st'. content_item_step st c = Inr st'"
proof -
  from assms obtain kvs where c: "c = PDict kvs" by (cases c) auto
  have txt_ok: "\<exists>s. py_concat (streamed_text st)
                 (case map_of kvs (PStr ''text'') of None \<Rightarrow> PStr '''' | Some x \<Rightarrow> x) = Inr s"
    using assms c by (auto split: option.splits pyval.splits)
  have tool: "\<exists>st'. and_then (py_get (case map_of kvs (PStr ''tool_results'') of None \<Rightarrow> PDict [] | Some x \<Rightarrow> x)
                  ''content'' (PList []))
               (\<lambda>results. and_then (py_iter results) (\<lambda>rs. for_each result_step st rs)) = Inr st'"
  proof (cases "map_of kvs (PStr ''tool_results'')")
    case None
    then show ?thesis by (simp add: and_then_Inr)
  next
    case (Some tr)
    with assms c have wtr: "wf_tool_results tr" by simp
    then obtain tk where tr: "tr = PDict tk" by (cases tr) auto
    show ?thesis
    proof (cases "map_of tk (PStr ''content'')")
      case None
      then show ?thesis by (simp add: Some tr and_then_Inr)
    next
      case (Some rsv)
      with wtr tr obtain rs where rs: "rsv = PList rs" and all: "list_all wf_result rs"
        by (cases rsv) auto
      from all have "\<exists>st'. for_each result_step st rs = Inr st'"
        by (intro for_each_total result_step_total) (simp add: list_all_iff)
      then show ?thesis using \<open>map_of kvs (PStr ''tool_results'') = Some tr\<close>
        by (simp add: Some tr rs and_then_Inr)
    qed
  qed
  from txt_ok tool show ?thesis
    by (auto simp: c content_item_step_def and_then_Inr)
qed

lemma event_step_total:
  assumes "wf_payload d"
  shows "\<exists>st'. event_step st d = Inr st'"
proof -
  from assms obtain kvs where d: "d = PDict kvs" by (cases d) auto
  show ?thesis
  proof (cases "map_of kvs (PStr ''delta'')")
    case None
    then show ?thesis by (simp add: d event_step_def and_then_Inr)
  next
    case (Some dl)
    with assms d have wd: "wf_delta dl" by simp
    then obtain dk where dl: "dl = PDict dk" by (cases dl) auto
    show ?thesis
    proof (cases "map_of dk (PStr ''content'')")
      case None
      then show ?thesis by (simp add: d Some dl event_step_def and_then_Inr)
    next
      case (Some cv)
      with wd dl obtain items where cv: "cv = PList items" and all: "list_all wf_item items"
        by (cases cv) auto
      from all have "\<exists>st'. for_each content_item_step st items = Inr st'"
        by (intro for_each_total content_item_step_total) (simp add: list_all_iff)
      then show ?thesis using \<open>map_of kvs (PStr ''delta'') = Some dl\<close>
        by (simp add: d Some dl cv event_step_def and_then_Inr)
    qed
  qed
qed

lemma drain_events_total:
  "list_all wf_payload ds \<Longrightarrow> \<exists>out. drain_events st ds = Inr out"
proof (induction ds arbitrary: st)
  case Nil
  then show ?case by simp
next
  case (Cons d ds)
  then have wd: "wf_payload d" and rest: "list_all wf_payload ds" by simp_all
  from wd obtain kvs where d: "d = PDict kvs" by (cases d) auto
  from event_step_total [OF wd, of st] obtain st1 where st1: "event_step st d = Inr st1" by auto
  from Cons.IH [OF rest, of st1] obtain out where "drain_events st1 ds = Inr out" by auto
  with st1 d show ?case by (auto split: bool.splits)
qed

lemma event_step_payload: "event_step st (payload_of ev) = Inr (absorb st ev)"
  by (cases ev) (simp_all add: event_step_def content_item_step_def result_step_def and_then_Inr)

lemma no_error_in_payload: "py_in ''error'' (payload_of ev) = Inr False"
  by (cases ev) simp_all

lemma drain_events_payloads:
  "drain_events st (map payload_of evs) = Inr (Drained (foldl absorb st evs))"
  by (induction evs arbitrary: st) (simp_all add: event_step_payload no_error_in_payload)




lemma stream_loop_Line_cases:
  "(\<exists>pe'. stream_loop loads pe (Line l # rest) = stream_loop loads pe' rest) \<or>
   (\<exists>v. stream_loop loads pe (Line l # rest) = v # stream_loop loads pe rest)"
proof (cases "strip l = []")
  case True
  then have "stream_loop loads pe (Line l # rest) = stream_loop loads pe rest" by simp
  then show ?thesis by blast
next
  case False
  note nonblank = this
  show ?thesis
  proof (cases "startswith l ''event:''")
    case True
    with nonblank have "stream_loop loads pe (Line l # rest) = stream_loop loads (Some (strip l)) rest"
      by simp
    then show ?thesis by blast
  next
    case False
    note no_label = this
    then have no_done: "\<not> startswith l ''event: done''"
      using done_line_is_event by blast
    show ?thesis
    proof (cases "startswith l ''data:'' \<and> pe = Some ''event: message.delta''")
      case True
      show ?thesis
      proof (cases "loads (data_body l)")
        case None
        with True nonblank no_label
        have "stream_loop loads pe (Line l # rest) = stream_loop loads pe rest" by simp
        then show ?thesis by blast
      next
        case (Some v)
        with True nonblank no_label
        have "stream_loop loads pe (Line l # rest) = v # stream_loop loads pe rest" by simp
        then show ?thesis by blast
      qed
    next
      case False
      with nonblank no_label no_done
      have "stream_loop loads pe (Line l # rest) = stream_loop loads pe rest" by auto
      then show ?thesis by blast
    qed
  qed
qed

lemma stream_ends_with_error:
  "Broken m \<in> set lines \<Longrightarrow>
   \<exists>ys m'. stream_loop loads pe lines = ys @ [PDict [(PStr ''error'', PStr m')]]"
proof (induction lines arbitrary: pe)
  case Nil
  then show ?case by simp
next
  case (Cons x lines)
  show ?case
  proof (cases x)
    case (Broken msg)
    then show ?thesis by simp
  next
    case LineNone
    with Cons.prems have "Broken m \<in> set lines" by simp
    from Cons.IH [OF this] LineNone show ?thesis by simp
  next
    case (Line l)
    with Cons.prems have in_rest: "Broken m \<in> set lines" by simp
    have rec: "\<exists>ys m'. stream_loop loads pe' lines = ys @ [PDict [(PStr ''error'', PStr m')]]" for pe'
      by (rule Cons.IH [OF in_rest])
    from stream_loop_Line_cases [of loads pe l lines]
    show ?thesis
    proof
      assume "\<exists>pe'. stream_loop loads pe (Line l # lines) = stream_loop loads pe' lines"
      then obtain pe' where "stream_loop loads pe (Line l # lines) = stream_loop loads pe' lines"
        by blast
      with rec [of pe'] show ?thesis unfolding Line by metis
    next
      assume "\<exists>v. stream_loop loads pe (Line l # lines) = v # stream_loop loads pe lines"
      then obtain v where v: "stream_loop loads pe (Line l # lines) = v # stream_loop loads pe lines"
        by blast
      from rec [of pe] obtain ys m' where
        "stream_loop loads pe lines = ys @ [PDict [(PStr ''error'', PStr m')]]" by blast
      with v have "stream_loop loads pe (Line l # lines) = (v # ys) @ [PDict [(PStr ''error'', PStr m')]]"
        by simp
      then show ?thesis unfolding Line by blast
    qed
  qed
qed

lemma drain_error_last:
  "drain_events st (ys @ [PDict [(PStr ''error'', v)]]) = Inr out \<Longrightarrow> \<exists>st'. out = ErrorSeen st'"
proof (induction ys arbitrary: st)
  case Nil
  then show ?case by auto
next
  case (Cons y ys)
  then show ?case
    by (auto split: sum.splits bool.splits)
qed

lemma transport_failure_gives_failure_shape:
  assumes "Broken m \<in> set (post_stream w (request query))"
    and "list_all wf_payload
           (cortex_analyst_sql_stream (json_loads w) (post_stream w (request query)))"
  shows "\<exists>r. booking_agent w request get_best query = Inr r \<and> failure_shape r"
proof -
  let ?events = "cortex_analyst_sql_stream (json_loads w) (post_stream w (request query))"
  have "\<exists>ys m'. ?events = ys @ [PDict [(PStr ''error'', PStr m')]]"
    unfolding cortex_analyst_sql_stream_def using assms(1) by (rule stream_ends_with_error)
  then obtain ys m' where ev: "?events = ys @ [PDict [(PStr ''error'', PStr m')]]" by blast
  from drain_events_total [OF assms(2), of initial_state]
  obtain out where out: "drain_events initial_state ?events = Inr out" by blast
  from out have "drain_events initial_state (ys @ [PDict [(PStr ''error'', PStr m')]]) = Inr out"
    unfolding ev .
  then have "\<exists>st. out = ErrorSeen st" by (rule drain_error_last)
  then obtain st where st: "out = ErrorSeen st" by blast
  have "booking_agent w request get_best query = Inr (streamed_text st, interp st, PNone, None, None)"
    unfolding booking_agent_def out st by simp
  moreover have "failure_shape (streamed_text st, interp st, PNone, None, None)"
    by (simp add: failure_shape_def)
  ultimately show ?thesis by blast
qed

lemma results_of_returned_futures:
  "for_each (\<lambda>shown (city, future). and_then future (\<lambda>r. Inr (shown @ [(city, r)])))
     acc (zip cities (map Inr rs)) = Inr (acc @ zip cities rs)"
proof (induction cities arbitrary: rs acc)
  case Nil
  then show ?case by simp
next
  case (Cons c cities)
  then show ?case by (cases rs) (simp_all add: and_then_Inr)
qed

lemma all_returned:
  "(\<And>x. x \<in> set xs \<Longrightarrow> \<exists>r. f x = Inr r) \<Longrightarrow> \<exists>rs. map f xs = map Inr rs"
proof (induction xs)
  case Nil
  then show ?case by simp
next
  case (Cons x xs)
  then obtain r rs where "f x = Inr r" "map f xs = map Inr rs" by (meson list.set_intros)
  then have "map f (x # xs) = map Inr (r # rs)" by simp
  then show ?case by blast
qed

section \<open>Facts about the sample world\<close>

lemma loads_hi: "sample_json_loads hi_body = Some (payload_of (TextDelta ''Hi''))"
  by (simp add: sample_json_loads_def)

lemma loads_flights:
  "sample_json_loads flights_body =
     Some (payload_of (ToolResultDelta (PStr ''SELECT * FROM FLIGHTS'') (PStr ''All flights'')))"
  by (simp add: sample_json_loads_def hi_body_def flights_body_def)

lemma loads_hotels:
  "sample_json_loads hotels_body =
     Some (payload_of (ToolResultDelta (PStr ''SELECT * FROM HOTELS'') (PStr ''All hotels'')))"
  by (simp add: sample_json_loads_def hi_body_def flights_body_def hotels_body_def)

lemma stream_loop_done_last: "stream_loop loads pe [Line ''event: done''] = []"
  by (simp add: done_line_is_label startswith_def)

lemma stream_loop_broken:
  "stream_loop loads pe (Broken msg # rest) =
     [PDict [(PStr ''error'', PStr (''Cortex Analyst streaming exception: '' @ msg))]]"
  by simp

lemma sample_flight_stream:
  "cortex_analyst_sql_stream sample_json_loads (frame hi_body @ frame flights_body @ [Line ''event: done''])
   = map payload_of [TextDelta ''Hi'',
        ToolResultDelta (PStr ''SELECT * FROM FLIGHTS'') (PStr ''All flights'')]"
  unfolding cortex_analyst_sql_stream_def
  by (simp only: stream_loop_frame [where loads = sample_json_loads and b = hi_body, OF loads_hi]
      stream_loop_frame [where loads = sample_json_loads and b = flights_body, OF loads_flights]
      stream_loop_done_last list.map)

lemma sample_hotel_stream:
  "cortex_analyst_sql_stream sample_json_loads (frame hi_body @ frame hotels_body @ [Line ''event: done''])
   = map payload_of [TextDelta ''Hi'',
        ToolResultDelta (PStr ''SELECT * FROM HOTELS'') (PStr ''All hotels'')]"
  unfolding cortex_analyst_sql_stream_def
  by (simp only: stream_loop_frame [where loads = sample_json_loads and b = hi_body, OF loads_hi]
      stream_loop_frame [where loads = sample_json_loads and b = hotels_body, OF loads_hotels]
      stream_loop_done_last list.map)

lemma sample_broken_stream:
  "cortex_analyst_sql_stream sample_json_loads (frame hi_body @ [Broken ''connection reset''])
   = [payload_of (TextDelta ''Hi''),
      PDict [(PStr ''error'', PStr ''Cortex Analyst streaming exception: connection reset'')]]"
  unfolding cortex_analyst_sql_stream_def
  by (simp only: stream_loop_frame [where loads = sample_json_loads and b = hi_body, OF loads_hi]
      stream_loop_broken) simp

lemma content_text_reply: "content_text (reply raw) = Inr (strip raw)"
  by (simp add: content_text_def reply_def and_then_Inr)

lemma strip_trip_text: "strip trip_text = trip_text"
  by (simp add: strip_def trip_text_def is_space_def whitespace_def)

lemma strip_cities_text: "strip cities_text = cities_text"
  by (simp add: strip_def cities_text_def is_space_def whitespace_def)



lemma eval_cities_text:
  "sample_literal_eval cities_text = Some (PList [PStr ''Mumbai'', PStr ''Pune''])"
  by (simp add: sample_literal_eval_def trip_text_def cities_text_def)

lemma sample_cities:
  "extract_cities_with_claude sample_world user_query rgn = Inr [''Mumbai'', ''Pune'']"
  unfolding extract_cities_with_claude_def
  by (simp add: sample_world_def sample_invoke_def cities_request_def content_text_reply
      strip_cities_text and_then_Inr parse_cities_def eval_cities_text py_str_def)





text \<open>
  The scenario of the specification: a text payload, then the \<^verbatim>\<open>done\<close> label as the last
  line. The parser yields the one payload and the stream ends, with the input.
\<close>

lemma scenario_hi_then_done:
  "cortex_analyst_sql_stream sample_json_loads
     [Line ''event: message.delta'', Line (''data: '' @ hi_body), Line ''event: done'']
   = [payload_of (TextDelta ''Hi'')]"
proof -
  have "stream_loop sample_json_loads None (frame hi_body @ [Line ''event: done''])
        = [payload_of (TextDelta ''Hi'')]"
    by (simp only: stream_loop_frame [where loads = sample_json_loads and b = hi_body, OF loads_hi]
        stream_loop_done_last)
  then show ?thesis by (simp add: cortex_analyst_sql_stream_def frame_def)
qed

section \<open>The streaming parser: completion, error events, malformed lines\<close>

text \<open>
  C1. The claim: a \<^verbatim>\<open>done\<close> line ends the parse at once and no further line is read. The
  branch that would do so comes after the branch for every line starting with
  \<^verbatim>\<open>event:\<close>, which a \<^verbatim>\<open>done\<close> line is, so it is never taken
  (\<open>done_line_is_label\<close>): the line only sets the pending event kind. Here the parser reads
  on after \<^verbatim>\<open>event: done\<close>: a frame that follows is yielded, and a read that fails while
  the server keeps the connection open is yielded as an error payload.
\<close>

theorem done_line_does_not_end_the_stream:
  "cortex_analyst_sql_stream sample_json_loads
     [Line ''event: done'', Line ''event: message.delta'', Line (''data: '' @ hi_body)]
   = [payload_of (TextDelta ''Hi'')] \<and>
   cortex_analyst_sql_stream sample_json_loads
     [Line ''event: message.delta'', Line (''data: '' @ hi_body), Line ''event: done'',
      Broken ''Read timed out'']
   = [payload_of (TextDelta ''Hi''),
      PDict [(PStr ''error'', PStr ''Cortex Analyst streaming exception: Read timed out'')]]"
proof -
  have label: "stream_loop sample_json_loads pe (Line ''event: done'' # rest)
        = stream_loop sample_json_loads (Some (strip ''event: done'')) rest" for pe rest
    by (rule done_line_is_label) (simp add: startswith_def)
  have "stream_loop sample_json_loads None (Line ''event: done'' # (frame hi_body @ []))
        = [payload_of (TextDelta ''Hi'')]"
    by (simp only: label stream_loop.simps(1)
        stream_loop_frame [where loads = sample_json_loads and b = hi_body, OF loads_hi])
  moreover have "stream_loop sample_json_loads None
          (frame hi_body @ (Line ''event: done'' # [Broken ''Read timed out'']))
        = [payload_of (TextDelta ''Hi''),
           PDict [(PStr ''error'', PStr ''Cortex Analyst streaming exception: Read timed out'')]]"
    by (simp only: label stream_loop_broken
        stream_loop_frame [where loads = sample_json_loads and b = hi_body, OF loads_hi]) simp
  ultimately show ?thesis by (simp add: cortex_analyst_sql_stream_def frame_def)
qed

text \<open>
  C3, as amended. For every data line read while the pending event kind is \<^verbatim>\<open>error\<close>,
  the parser yields nothing (the source prints the line) and goes on with the next line.
\<close>

theorem error_kind_data_line_is_dropped:
  "startswith l ''data:'' \<Longrightarrow>
   stream_loop loads (Some ''event: error'') (Line l # rest) =
     stream_loop loads (Some ''event: error'') rest"
  by (simp add: data_line_not_blank data_line_not_event)

theorem error_kind_data_line_is_dropped_witness:
  "startswith (''data: '' @ boom_body) ''data:'' \<and>
   stream_loop sample_json_loads (Some ''event: error'')
     (Line (''data: '' @ boom_body) # frame hi_body) = [payload_of (TextDelta ''Hi'')]"
proof -
  have s: "startswith (''data: '' @ boom_body) ''data:''" by (simp add: startswith_def)
  have "stream_loop sample_json_loads (Some ''event: error'') (frame hi_body @ [])
        = [payload_of (TextDelta ''Hi'')]"
    by (simp only: stream_loop_frame [where loads = sample_json_loads and b = hi_body, OF loads_hi]
        stream_loop.simps)
  with s error_kind_data_line_is_dropped [OF s, of sample_json_loads "frame hi_body"]
  show ?thesis by simp
qed

text \<open>
  C3 as claimed fails: an \<^verbatim>\<open>error\<close> event with a decodable body reaches no consumer.
\<close>

theorem error_event_yields_nothing:
  "cortex_analyst_sql_stream sample_json_loads
     [Line ''event: error'', Line (''data: '' @ boom_body)] = []"
  by (simp add: cortex_analyst_sql_stream_def startswith_def strip_def is_space_def whitespace_def)

text \<open>
  C7. Take any well-formed stream, every body of which decodes, and put one data line whose
  body does not decode at any position \<open>n\<close>. The parser yields the payload of every
  well-formed line, in order, and nothing else: no event for the malformed line, and no
  early end. (Whatever the lines around it, the parser yields what it yields without the
  malformed line: \<open>stream_loop_delete_undecodable\<close>.)
\<close>

theorem malformed_line_between_frames:
  assumes "list_all (\<lambda>(b, v). loads b = Some v) fs"
    and "startswith bad ''data:''" and "loads (data_body bad) = None"
  shows "cortex_analyst_sql_stream loads
           (take n (frames (map fst fs)) @ Line bad # drop n (frames (map fst fs))) = map snd fs"
proof -
  have "stream_loop loads None (take n (frames (map fst fs)) @ Line bad # drop n (frames (map fst fs)))
        = stream_loop loads None (take n (frames (map fst fs)) @ drop n (frames (map fst fs)))"
    using assms(2,3) by (rule stream_loop_delete_undecodable)
  also have "\<dots> = stream_loop loads None (frames (map fst fs) @ [])" by simp
  also have "\<dots> = map snd fs" using stream_loop_frames [OF assms(1), of None "[]"] by simp
  finally show ?thesis by (simp add: cortex_analyst_sql_stream_def)
qed

theorem malformed_line_between_frames_witness:
  "list_all (\<lambda>(b, v). sample_json_loads b = Some v)
     [(hi_body, payload_of (TextDelta ''Hi'')),
      (flights_body, payload_of (ToolResultDelta (PStr ''SELECT * FROM FLIGHTS'') (PStr ''All flights'')))]
   \<and> startswith ''data: {not json'' ''data:''
   \<and> sample_json_loads (data_body ''data: {not json'') = None
   \<and> cortex_analyst_sql_stream sample_json_loads
        [Line ''event: message.delta'', Line (''data: '' @ hi_body),
         Line ''data: {not json'',
         Line ''event: message.delta'', Line (''data: '' @ flights_body)]
      = [payload_of (TextDelta ''Hi''),
         payload_of (ToolResultDelta (PStr ''SELECT * FROM FLIGHTS'') (PStr ''All flights''))]"
proof -
  let ?fs = "[(hi_body, payload_of (TextDelta ''Hi'')),
      (flights_body, payload_of (ToolResultDelta (PStr ''SELECT * FROM FLIGHTS'') (PStr ''All flights'')))]"
  have a: "list_all (\<lambda>(b, v). sample_json_loads b = Some v) ?fs"
    by (simp add: loads_hi loads_flights)
  have b: "startswith ''data: {not json'' ''data:''" by (simp add: startswith_def)
  have c: "sample_json_loads (data_body ''data: {not json'') = None"
    by (simp add: data_body_def sample_json_loads_def hi_body_def flights_body_def hotels_body_def
        boom_body_def)
  have d: "take 2 (frames (map fst ?fs)) @ Line ''data: {not json'' # drop 2 (frames (map fst ?fs))
        = [Line ''event: message.delta'', Line (''data: '' @ hi_body), Line ''data: {not json'',
           Line ''event: message.delta'', Line (''data: '' @ flights_body)]"
    by (simp add: frames_def frame_def)
  from malformed_line_between_frames [OF a b c, of 2] a b c show ?thesis
    unfolding d by simp
qed

section \<open>The sample agents\<close>

lemma drain_sample_flight:
 "drain_events initial_state (map payload_of [TextDelta ''Hi'',
        ToolResultDelta (PStr ''SELECT * FROM FLIGHTS'') (PStr ''All flights'')])
  = Inr (Drained \<lparr>streamed_text = ''Hi'', interp = PStr ''All flights'',
                   sql_code = PStr ''SELECT * FROM FLIGHTS''\<rparr>)"
  by (simp only: drain_events_payloads) (simp add: initial_state_def)

lemma drain_sample_hotel:
 "drain_events initial_state (map payload_of [TextDelta ''Hi'',
        ToolResultDelta (PStr ''SELECT * FROM HOTELS'') (PStr ''All hotels'')])
  = Inr (Drained \<lparr>streamed_text = ''Hi'', interp = PStr ''All hotels'',
                   sql_code = PStr ''SELECT * FROM HOTELS''\<rparr>)"
  by (simp only: drain_events_payloads) (simp add: initial_state_def)

lemma drain_sample_broken:
 "drain_events initial_state [payload_of (TextDelta ''Hi''),
      PDict [(PStr ''error'', PStr ''Cortex Analyst streaming exception: connection reset'')]]
  = Inr (ErrorSeen \<lparr>streamed_text = ''Hi'', interp = PNone, sql_code = PNone\<rparr>)"
  by (simp add: no_error_in_payload event_step_payload initial_state_def del: payload_of.simps)


lemma sample_hotel_agent_mumbai:
  "hotel_agent sample_world None ''us-east-1'' ''Find hotels in Mumbai''
   = Inr (''Hi'', PStr ''All hotels'', PStr ''SELECT * FROM HOTELS'',
          Some ''Take the first option.'', Some [[''Taj'', ''Mumbai'']])"
proof -
  have p: "post_stream sample_world (hotel_request ''Find hotels in Mumbai'')
        = frame hi_body @ frame hotels_body @ [Line ''event: done'']"
    by (simp add: sample_world_def sample_post_def hotel_request_def)
  have l: "json_loads sample_world = sample_json_loads"
    by (simp add: sample_world_def)
  show ?thesis
    unfolding hotel_agent_def create_hotel_booking_agent_def booking_agent_def p l
      sample_hotel_stream drain_sample_hotel
    by (simp add: run_sql_on_snowflake_def get_best_hotel_from_claude_def sample_world_def
        sample_fetch_def sample_invoke_def content_text_reply and_then_Inr
        strip_def is_space_def whitespace_def)
qed

lemma sample_hotel_agent_pune:
  "hotel_agent sample_world None ''us-east-1'' ''Find hotels in Pune''
   = Inr (''Hi'', PNone, PNone, None, None)"
proof -
  have p: "post_stream sample_world (hotel_request ''Find hotels in Pune'')
        = frame hi_body @ [Broken ''connection reset'']"
    by (simp add: sample_world_def sample_post_def hotel_request_def)
  have l: "json_loads sample_world = sample_json_loads"
    by (simp add: sample_world_def)
  show ?thesis
    unfolding hotel_agent_def create_hotel_booking_agent_def booking_agent_def p l
      sample_broken_stream drain_sample_broken
    by simp
qed

section \<open>The agent pipeline: what the loop keeps, and which exceptions leave it\<close>









text \<open>
  A payload that is valid JSON but has not the shape of the wire format makes the loop
  raise: here \<^verbatim>\<open>{"delta": 5}\<close>, on which \<^verbatim>\<open>delta.get\<close> is an attribute error.
\<close>

lemma ill_shaped_payload_raises:
  "drain_events initial_state [PDict [(PStr ''delta'', PInt 5)]] = Inl AttributeError"
  by (simp add: event_step_def and_then_def)


section \<open>Structured extraction: defaults and round trip\<close>

lemma answering_world_fields:
  "invoke_model (answering_world t) req = Inr (reply t)"
  "literal_eval (answering_world t) = sample_literal_eval"
  "py_repr (answering_world t) = sample_repr"
  by (simp_all add: answering_world_def sample_world_def)

text \<open>
  C4, as amended. For every text that the model gives to the extraction chain (\<open>txt\<close> for
  the trip intent, \<open>cities_txt\<close> for the cities), if the literal parse fails or the parsed
  value is not a mapping, respectively not a list, the chain returns the documented default;
  a mapping is returned as it is, whatever its keys, and a list is returned with every
  element turned into text. In every case the chain returns a value and raises nothing.
\<close>

theorem extraction_defaults_unless_mapping_or_list:
  assumes "invoke_model w (trip_info_request q rgn) = Inr result"
    and "content_text result = Inr txt"
    and "invoke_model w (cities_request q rgn) = Inr cities_result"
    and "content_text cities_result = Inr cities_txt"
  shows "(\<forall>info. literal_eval w txt = Some (PDict info) \<longrightarrow>
            extract_trip_info_with_claude w q rgn = Inr (PDict info)) \<and>
         ((\<forall>info. literal_eval w txt \<noteq> Some (PDict info)) \<longrightarrow>
            extract_trip_info_with_claude w q rgn = Inr default_trip_info) \<and>
         (\<forall>cities. literal_eval w cities_txt = Some (PList cities) \<longrightarrow>
            extract_cities_with_claude w q rgn = Inr (map (py_str (py_repr w)) cities)) \<and>
         ((\<forall>cities. literal_eval w cities_txt \<noteq> Some (PList cities)) \<longrightarrow>
            extract_cities_with_claude w q rgn = Inr [])"
proof -
  have trip: "extract_trip_info_with_claude w q rgn = Inr (parse_trip_info w txt)"
    using assms(1,2) by (simp add: extract_trip_info_with_claude_def and_then_Inr)
  have cities: "extract_cities_with_claude w q rgn = Inr (parse_cities w cities_txt)"
    using assms(3,4) by (simp add: extract_cities_with_claude_def and_then_Inr)
  have "parse_trip_info w txt = PDict info" if "literal_eval w txt = Some (PDict info)" for info
    using that by (simp add: parse_trip_info_def)
  moreover have "parse_trip_info w txt = default_trip_info"
    if "\<forall>info. literal_eval w txt \<noteq> Some (PDict info)"
    using that by (auto simp: parse_trip_info_def split: option.splits pyval.splits)
  moreover have "parse_cities w cities_txt = map (py_str (py_repr w)) cs"
    if "literal_eval w cities_txt = Some (PList cs)" for cs
    using that by (simp add: parse_cities_def)
  moreover have "parse_cities w cities_txt = []"
    if "\<forall>cs. literal_eval w cities_txt \<noteq> Some (PList cs)"
    using that by (auto simp: parse_cities_def split: option.splits pyval.splits)
  ultimately show ?thesis unfolding trip cities by blast
qed

theorem extraction_defaults_unless_mapping_or_list_witness:
  "content_text (reply ''I cannot determine this.'') = Inr ''I cannot determine this.'' \<and>
   sample_literal_eval ''I cannot determine this.'' = None \<and>
   extract_trip_info_with_claude (answering_world ''I cannot determine this.'')
     ''delhi to mumbai and pune and back'' ''us-east-1''
   = Inr (PDict [(PStr ''source_city'', PStr ''''), (PStr ''dest_cities'', PList []),
                 (PStr ''duration'', PNone)]) \<and>
   extract_cities_with_claude (answering_world ''I cannot determine this.'')
     ''delhi to mumbai and pune and back'' ''us-east-1'' = Inr []"
proof -
  let ?t = "''I cannot determine this.''"
  let ?w = "answering_world ?t"
  have c: "content_text (reply ?t) = Inr ?t"
    by (simp add: content_text_reply strip_def is_space_def whitespace_def)
  have n: "sample_literal_eval ?t = None"
    by (simp add: sample_literal_eval_def trip_text_def cities_text_def)
  from extraction_defaults_unless_mapping_or_list
    [of "?w" "''delhi to mumbai and pune and back''" "''us-east-1''" "reply ?t" "?t"
       "reply ?t" "?t",
     OF answering_world_fields(1) c answering_world_fields(1) c]
  have "extract_trip_info_with_claude ?w ''delhi to mumbai and pune and back'' ''us-east-1''
          = Inr default_trip_info"
    and "extract_cities_with_claude ?w ''delhi to mumbai and pune and back'' ''us-east-1'' = Inr []"
    using n by (simp_all add: answering_world_fields)
  with c n show ?thesis by (simp add: default_trip_info_def)
qed

text \<open>
  C4 as claimed fails: a mapping without the three keys and a list of numbers match no
  expected shape, and neither gives the default.
\<close>

theorem mapping_without_the_keys_is_returned:
  \<open>extract_trip_info_with_claude (answering_world ''{'a': 1}'')
     ''delhi to mumbai and pune and back'' ''us-east-1''
   = Inr (PDict [(PStr ''a'', PInt 1)]) \<and>
   extract_cities_with_claude (answering_world ''[1, 2]'')
     ''delhi to mumbai and pune and back'' ''us-east-1''
   = Inr [''1'', ''2'']\<close>
  by (simp add: extract_trip_info_with_claude_def extract_cities_with_claude_def
      answering_world_fields content_text_reply and_then_Inr strip_def is_space_def whitespace_def
      parse_trip_info_def parse_cities_def sample_literal_eval_def trip_text_def cities_text_def
      py_str_def sample_repr_def)

text \<open>
  C9. For every text of the model that the literal parse reads as a mapping, trip-intent
  extraction returns that mapping unchanged; so for the mapping with the three expected
  keys of the scenario.
\<close>

theorem mapping_literal_round_trip:
  assumes "invoke_model w (trip_info_request q rgn) = Inr result"
    and "content_text result = Inr txt"
    and "literal_eval w txt = Some (PDict info)"
  shows "extract_trip_info_with_claude w q rgn = Inr (PDict info)"
  using assms
  by (simp add: extract_trip_info_with_claude_def and_then_Inr parse_trip_info_def)

theorem mapping_literal_round_trip_witness:
  \<open>invoke_model sample_world (trip_info_request ''delhi to mumbai and pune and back'' ''us-east-1'')
    = Inr (reply ''{'source_city': 'Delhi', 'dest_cities': ['Mumbai','Pune'], 'duration': 5}'') \<and>
   content_text (reply ''{'source_city': 'Delhi', 'dest_cities': ['Mumbai','Pune'], 'duration': 5}'')
    = Inr ''{'source_city': 'Delhi', 'dest_cities': ['Mumbai','Pune'], 'duration': 5}'' \<and>
   literal_eval sample_world
      ''{'source_city': 'Delhi', 'dest_cities': ['Mumbai','Pune'], 'duration': 5}''
    = Some (PDict [(PStr ''source_city'', PStr ''Delhi''),
                   (PStr ''dest_cities'', PList [PStr ''Mumbai'', PStr ''Pune'']),
                   (PStr ''duration'', PInt 5)]) \<and>
   extract_trip_info_with_claude sample_world ''delhi to mumbai and pune and back'' ''us-east-1''
    = Inr (PDict [(PStr ''source_city'', PStr ''Delhi''),
                  (PStr ''dest_cities'', PList [PStr ''Mumbai'', PStr ''Pune'']),
                  (PStr ''duration'', PInt 5)])\<close>
proof -
  have i: "invoke_model sample_world (trip_info_request ''delhi to mumbai and pune and back'' ''us-east-1'')
    = Inr (reply trip_text)"
    by (simp add: sample_world_def sample_invoke_def trip_info_request_def)
  have c: "content_text (reply trip_text) = Inr trip_text"
    by (simp add: content_text_reply strip_trip_text)
  have l: "literal_eval sample_world trip_text
    = Some (PDict [(PStr ''source_city'', PStr ''Delhi''),
                   (PStr ''dest_cities'', PList [PStr ''Mumbai'', PStr ''Pune'']),
                   (PStr ''duration'', PInt 5)])"
    by (simp add: sample_world_def sample_literal_eval_def trip_mapping_def)
  from mapping_literal_round_trip [OF i c l] i c l show ?thesis
    by (simp add: trip_text_def)
qed

section \<open>The orchestrator: identities and isolation of the hotel tasks\<close>

text \<open>
  C8, as amended. The orchestrator constructs one flight agent, one hotel agent and one
  activity agent, all with the one session id; the one hotel agent, with its one actor id,
  runs the task of every destination city.
\<close>

theorem one_session_and_one_hotel_agent:
  "session_id (flight_agent_args m r) = SESSION_ID \<and>
   session_id (hotel_agent_args m r) = SESSION_ID \<and>
   session_id (activity_agent_args m r) = SESSION_ID \<and>
   hotel_futures w m r hotel_cities =
     map (\<lambda>city. create_hotel_booking_agent w (hotel_agent_args m r) (''Find hotels in '' @ city))
       hotel_cities"
  by (simp add: flight_agent_args_def hotel_agent_args_def activity_agent_args_def
      hotel_futures_def hotel_agent_def)

theorem one_session_and_one_hotel_agent_witness:
  "session_id (flight_agent_args None ''us-east-1'') = ''flight_session_001'' \<and>
   session_id (hotel_agent_args None ''us-east-1'') = ''flight_session_001'' \<and>
   session_id (activity_agent_args None ''us-east-1'') = ''flight_session_001'' \<and>
   hotel_futures sample_world None ''us-east-1'' [''Mumbai'', ''Pune''] =
     [create_hotel_booking_agent sample_world (hotel_agent_args None ''us-east-1'')
        ''Find hotels in Mumbai'',
      create_hotel_booking_agent sample_world (hotel_agent_args None ''us-east-1'')
        ''Find hotels in Pune'']"
  using one_session_and_one_hotel_agent [of None "''us-east-1''" sample_world "[''Mumbai'', ''Pune'']"]
  by (simp add: SESSION_ID_def)

text \<open>
  C8 as claimed fails: the three factories are called with the same actor id.
\<close>

theorem agents_share_one_actor_id:
  "actor_id (flight_agent_args None ''us-east-1'') = ''flight_user_001'' \<and>
   actor_id (hotel_agent_args None ''us-east-1'') = ''flight_user_001'' \<and>
   actor_id (activity_agent_args None ''us-east-1'') = ''flight_user_001''"
  by (simp add: flight_agent_args_def hotel_agent_args_def activity_agent_args_def ACTOR_ID_def)

text \<open>
  C6, as amended. Of N hotel tasks, let task \<open>i\<close> meet a transport failure in its stream
  (the payloads it received having the shape of the wire format), and let every other task
  return a result with a generated query. Then the orchestrator collects N results, in the
  order of the cities: that of task \<open>i\<close> has the failure shape, the others the success
  shape. The transport failure reaches neither the orchestrator nor another task.
\<close>

theorem transport_failure_stays_in_its_task:
  assumes i: "i < length hotel_cities"
    and broken: "Broken msg \<in> set (post_stream w (hotel_request (''Find hotels in '' @ hotel_cities ! i)))"
    and wf: "list_all wf_payload
               (cortex_analyst_sql_stream (json_loads w)
                  (post_stream w (hotel_request (''Find hotels in '' @ hotel_cities ! i))))"
    and others: "\<And>j. j < length hotel_cities \<Longrightarrow> j \<noteq> i \<Longrightarrow>
                   \<exists>r. hotel_agent w m rgn (''Find hotels in '' @ hotel_cities ! j) = Inr r \<and>
                       success_shape r"
  shows "\<exists>rs. hotel_results hotel_cities (hotel_futures w m rgn hotel_cities) = Inr rs \<and>
              length rs = length hotel_cities \<and> map fst rs = hotel_cities \<and>
              failure_shape (snd (rs ! i)) \<and>
              (\<forall>j < length hotel_cities. j \<noteq> i \<longrightarrow> success_shape (snd (rs ! j)))"
proof -
  define f where "f = (\<lambda>city. hotel_agent w m rgn (''Find hotels in '' @ city))"
  have at_i: "\<exists>r. f (hotel_cities ! i) = Inr r \<and> failure_shape r"
    unfolding f_def hotel_agent_def create_hotel_booking_agent_def
    using broken wf by (rule transport_failure_gives_failure_shape)
  have each: "\<exists>r. f x = Inr r" if "x \<in> set hotel_cities" for x
  proof -
    from that obtain j where j: "j < length hotel_cities" "x = hotel_cities ! j"
      by (auto simp: in_set_conv_nth)
    show ?thesis
    proof (cases "j = i")
      case True
      with at_i j show ?thesis by blast
    next
      case False
      from others [OF j(1) False] j(2) show ?thesis unfolding f_def by blast
    qed
  qed
  from all_returned [of hotel_cities f, OF each] obtain rs where
    rs: "map f hotel_cities = map Inr rs" by blast
  from rs have "length (map f hotel_cities) = length (map Inr rs)" by simp
  then have len: "length rs = length hotel_cities" by simp
  have nth: "f (hotel_cities ! j) = Inr (rs ! j)" if "j < length hotel_cities" for j
  proof -
    have "f (hotel_cities ! j) = map f hotel_cities ! j" using that by simp
    also have "\<dots> = map Inr rs ! j" unfolding rs ..
    also have "\<dots> = Inr (rs ! j)" using that len by simp
    finally show ?thesis .
  qed
  have fut: "hotel_futures w m rgn hotel_cities = map Inr rs"
    unfolding hotel_futures_def using rs by (simp add: f_def)
  have res: "hotel_results hotel_cities (hotel_futures w m rgn hotel_cities)
             = Inr (zip hotel_cities rs)"
    unfolding hotel_results_def fut
    using results_of_returned_futures [of "[]" hotel_cities rs] by simp
  have zl: "length (zip hotel_cities rs) = length hotel_cities" using len by simp
  have zf: "map fst (zip hotel_cities rs) = hotel_cities" using len by simp
  have zn: "snd (zip hotel_cities rs ! j) = rs ! j" if "j < length hotel_cities" for j
    using that len by simp
  have fail: "failure_shape (snd (zip hotel_cities rs ! i))"
  proof -
    from at_i obtain r where "f (hotel_cities ! i) = Inr r" "failure_shape r" by blast
    with nth [OF i] have "failure_shape (rs ! i)" by simp
    then show ?thesis unfolding zn [OF i] .
  qed
  have succ: "success_shape (snd (zip hotel_cities rs ! j))"
    if "j < length hotel_cities" "j \<noteq> i" for j
  proof -
    from others [OF that] obtain r where "f (hotel_cities ! j) = Inr r" "success_shape r"
      unfolding f_def by blast
    with nth [OF that(1)] have "success_shape (rs ! j)" by simp
    then show ?thesis unfolding zn [OF that(1)] .
  qed
  from res zl zf fail succ show ?thesis by blast
qed

theorem transport_failure_stays_in_its_task_witness:
  "Broken ''connection reset'' \<in> set (post_stream sample_world (hotel_request ''Find hotels in Pune'')) \<and>
   list_all wf_payload
     (cortex_analyst_sql_stream (json_loads sample_world)
        (post_stream sample_world (hotel_request ''Find hotels in Pune''))) \<and>
   success_shape (''Hi'', PStr ''All hotels'', PStr ''SELECT * FROM HOTELS'',
                  Some ''Take the first option.'', Some [[''Taj'', ''Mumbai'']]) \<and>
   failure_shape (''Hi'', PNone, PNone, None, None :: string list list option) \<and>
   hotel_results [''Mumbai'', ''Pune'']
     (hotel_futures sample_world None ''us-east-1'' [''Mumbai'', ''Pune''])
   = Inr [(''Mumbai'', (''Hi'', PStr ''All hotels'', PStr ''SELECT * FROM HOTELS'',
                        Some ''Take the first option.'', Some [[''Taj'', ''Mumbai'']])),
          (''Pune'', (''Hi'', PNone, PNone, None, None))]"
proof -
  let ?cities = "[''Mumbai'', ''Pune'']"
  have p: "post_stream sample_world (hotel_request ''Find hotels in Pune'')
        = frame hi_body @ [Broken ''connection reset'']"
    by (simp add: sample_world_def sample_post_def hotel_request_def)
  have l: "json_loads sample_world = sample_json_loads"
    by (simp add: sample_world_def)
  have i: "1 < length ?cities" by simp
  have b: "Broken ''connection reset'' \<in> set (post_stream sample_world (hotel_request ''Find hotels in Pune''))"
    unfolding p by simp
  have wf: "list_all wf_payload
     (cortex_analyst_sql_stream (json_loads sample_world)
        (post_stream sample_world (hotel_request ''Find hotels in Pune'')))"
    unfolding p l sample_broken_stream by simp
  have s: "success_shape (''Hi'', PStr ''All hotels'', PStr ''SELECT * FROM HOTELS'',
                  Some ''Take the first option.'', Some [[''Taj'', ''Mumbai'']])"
    by (simp add: success_shape_def)
  have f: "failure_shape (''Hi'', PNone, PNone, None, None :: string list list option)"
    by (simp add: failure_shape_def)
  have o: "\<exists>r. hotel_agent sample_world None ''us-east-1'' (''Find hotels in '' @ ?cities ! j) = Inr r \<and>
               success_shape r" if "j < length ?cities" "j \<noteq> 1" for j
  proof -
    from that have "j = 0" by simp
    with sample_hotel_agent_mumbai s show ?thesis by simp
  qed
  have b1: "Broken ''connection reset'' \<in> set (post_stream sample_world (hotel_request (''Find hotels in '' @ ?cities ! 1)))"
    using b by simp
  have wf1: "list_all wf_payload
     (cortex_analyst_sql_stream (json_loads sample_world)
        (post_stream sample_world (hotel_request (''Find hotels in '' @ ?cities ! 1))))"
    using wf by simp
  have r: "hotel_results ?cities (hotel_futures sample_world None ''us-east-1'' ?cities)
   = Inr [(''Mumbai'', (''Hi'', PStr ''All hotels'', PStr ''SELECT * FROM HOTELS'',
                        Some ''Take the first option.'', Some [[''Taj'', ''Mumbai'']])),
          (''Pune'', (''Hi'', PNone, PNone, None, None))]"
    using sample_hotel_agent_mumbai sample_hotel_agent_pune
    by (simp add: hotel_results_def hotel_futures_def and_then_Inr)
  from transport_failure_stays_in_its_task [of 1 ?cities "''connection reset''" sample_world
      None "''us-east-1''", OF i b1 wf1 o] b wf s f r
  show ?thesis by simp
qed

text \<open>
  C6 as claimed fails in its last part: an exception raised in a hotel task after its
  stream (here by the ranking call for Mumbai, every other call succeeding) is raised again
  by \<^verbatim>\<open>future.result()\<close> in the orchestrator, which ends with it and collects no
  hotel result.
\<close>

theorem ranking_failure_in_a_hotel_task_reaches_the_orchestrator:
  "main no_hotel_ranking_world None ''us-east-1'' ''delhi to mumbai and pune and back''
   = Inl (ServiceError ''ThrottlingException'')"
proof -
  let ?w = no_hotel_ranking_world
  have l: "json_loads ?w = sample_json_loads"
    by (simp add: no_hotel_ranking_world_def sample_world_def)
  have pf: "post_stream ?w (flight_request ''delhi to mumbai and pune and back'')
        = frame hi_body @ frame flights_body @ [Line ''event: done'']"
    by (simp add: no_hotel_ranking_world_def sample_world_def sample_post_def flight_request_def)
  have flight: "flight_agent ?w None ''us-east-1'' ''delhi to mumbai and pune and back''
     = Inr (''Hi'', PStr ''All flights'', PStr ''SELECT * FROM FLIGHTS'',
            Some ''Take the first option.'', Some [[''AI101'', ''Delhi'', ''Mumbai'']])"
    unfolding flight_agent_def create_flight_booking_agent_def booking_agent_def pf l
      sample_flight_stream drain_sample_flight
    by (simp add: run_sql_on_snowflake_def get_best_flight_from_claude_def
        no_hotel_ranking_world_def sample_world_def sample_fetch_def sample_invoke_def
        content_text_reply and_then_Inr strip_def is_space_def whitespace_def)
  have cities: "extract_cities_with_claude ?w ''delhi to mumbai and pune and back'' ''us-east-1''
     = Inr [''Mumbai'', ''Pune'']"
    unfolding extract_cities_with_claude_def
    by (simp add: no_hotel_ranking_world_def sample_world_def sample_invoke_def cities_request_def
        content_text_reply strip_cities_text and_then_Inr parse_cities_def eval_cities_text
        py_str_def)
  have ph: "post_stream ?w (hotel_request ''Find hotels in Mumbai'')
        = frame hi_body @ frame hotels_body @ [Line ''event: done'']"
    by (simp add: no_hotel_ranking_world_def sample_world_def sample_post_def hotel_request_def)
  have mumbai: "hotel_agent ?w None ''us-east-1'' ''Find hotels in Mumbai''
           = Inl (ServiceError ''ThrottlingException'')"
    unfolding hotel_agent_def create_hotel_booking_agent_def booking_agent_def ph l
      sample_hotel_stream drain_sample_hotel
    by (simp add: run_sql_on_snowflake_def get_best_hotel_from_claude_def
        no_hotel_ranking_world_def sample_world_def sample_fetch_def and_then_Inl)
  have hotels: "hotel_results [''Mumbai'', ''Pune'']
       (hotel_futures ?w None ''us-east-1'' [''Mumbai'', ''Pune''])
     = Inl (ServiceError ''ThrottlingException'')"
    using mumbai by (simp add: hotel_results_def hotel_futures_def and_then_Inl)
  show ?thesis
    unfolding main_def Let_def
    by (simp add: flight cities hotels and_then_Inr and_then_Inl)
qed

section \<open>The activity planner agent: the shape of its result\<close>

text \<open>
  The agent returns whenever its collaborators do and the model's mapping holds a string
  as source city and a list of strings as destinations.
\<close>

lemma keep_city_strings:
  "for_each (keep_city (PStr s)) kept (map PStr cs) =
     Inr (kept @ map PStr (filter (\<lambda>c. lower (strip c) \<noteq> lower (strip s)) cs))"
  by (induction cs arbitrary: kept) (simp_all add: keep_city_def and_then_Inr)

lemma activity_step_returns:
  assumes "\<And>cq. \<exists>resp. search w cq limit = Inr resp"
  shows "\<exists>found. activity_step w duration limit all_activities city = Inr found"
proof -
  let ?cq = "''Find activities and experiences for a traveler in ''
            @ py_str (py_repr w) city @ ''. Trip duration: '' @ py_str (py_repr w) duration @ '' days.''"
  from assms [of ?cq] obtain resp where "search w ?cq limit = Inr resp" by blast
  then show ?thesis
    by (simp add: activity_step_def and_then_Inr split: option.splits)
qed

lemma py_join_strings: "\<exists>t. py_join sep (map PStr cs) = Inr t"
proof (induction cs)
  case Nil
  then show ?case by simp
next
  case (Cons c cs)
  then show ?case by (cases cs) auto
qed

lemma plan_returns:
  assumes "\<And>req. \<exists>res text. invoke_model w req = Inr res \<and> content_text res = Inr text"
  shows "\<exists>plan_md. get_daywise_plan_from_claude w df q src (map PStr cs) rgn = Inr plan_md"
proof -
  from py_join_strings [of "'', ''" cs] obtain joined where
    j: "py_join '', '' (map PStr cs) = Inr joined" by blast
  show ?thesis
    unfolding get_daywise_plan_from_claude_def Let_def j and_then_Inr
    using assms by (metis and_then_Inr)
qed

lemma activity_agent_returns:
  assumes ctx: "get_recent_context w args 5 = Inr context"
    and trip: "extract_trip_info_with_claude w q (region args) = Inr (PDict info)"
    and src: "map_of info (PStr ''source_city'') = Some (PStr s)"
    and dst: "map_of info (PStr ''dest_cities'') = Some (PList (map PStr cs))"
    and conn: "connect_search w = Inr ()"
    and srch: "\<And>cq. \<exists>resp. search w cq limit = Inr resp"
    and model: "\<And>req. \<exists>res text. invoke_model w req = Inr res \<and> content_text res = Inr text"
  shows "\<exists>r. create_activity_planner_agent w args q limit = Inr r"
proof -
  let ?kept = "map PStr (filter (\<lambda>c. lower (strip c) \<noteq> lower (strip s)) cs)"
  let ?duration = "case map_of info (PStr ''duration'') of None \<Rightarrow> PNone | Some x \<Rightarrow> x"
  have "\<exists>found. for_each (activity_step w ?duration limit) [] ?kept = Inr found"
    by (rule for_each_total) (rule activity_step_returns [OF srch])
  then obtain found where found: "for_each (activity_step w ?duration limit) [] ?kept = Inr found"
    by blast
  define table where "table = (if found \<noteq> [] then pd_concat w found else empty_frame w)"
  from plan_returns [OF model, of table q "PStr s" "filter (\<lambda>c. lower (strip c) \<noteq> lower (strip s)) cs" "region args"]
  obtain plan_md where plan: "get_daywise_plan_from_claude w table q (PStr s) ?kept (region args) = Inr plan_md"
    by blast
  show ?thesis
    unfolding create_activity_planner_agent_def ctx trip and_then_Inr
    using src dst conn found plan
    by (cases "found = []")
      (simp_all add: and_then_Inr keep_city_strings table_def Let_def del: for_each.simps)
qed







end
